theory Spec2Isabelle
  imports Complex_Main "HOL-Library.Monad_Syntax"
begin

section \<open>Canonical data model\<close>

text \<open>
  Python values that travel through the code untyped (the parsed JSON payloads of the two
  providers) are kept as a small JSON datatype. A number carries the decimal value that
  Python's \<^verbatim>\<open>str\<close> prints for it; a dict is the list of its items.
\<close>

datatype json =
    JNull
  | JBool bool
  | JNum rat
  | JStr string
  | JArr "json list"
  | JObj "(string \<times> json) list"

text \<open>
  \<^verbatim>\<open>Decimal\<close> amounts are exact rationals: every amount read from a
  \<^verbatim>\<open>Numeric(18, 4)\<close> column has at most 18 significant digits, and the sums and
  products below stay inside the 28 digits of the default decimal context, so that no
  rounding takes place. A \<^verbatim>\<open>datetime\<close> is the reading of a wall clock, in
  microseconds since 1970-01-01T00:00, with the offset of that clock from UTC (\<open>None\<close> when
  the value is naive); a calendar date is a day number since 1970-01-01.
\<close>

type_synonym decimal = rat
type_synonym uuid = nat
type_synonym day = int

record datetime =
  wall :: int
  tzoffset :: "int option"

text \<open>
  The dict a normalizer returns, one field per key, and the \<^verbatim>\<open>Transaction\<close> row
  of \<^verbatim>\<open>models/transaction.py\<close>, which has the same columns plus the primary key and
  the ingestion timestamp that the database fills in. A field that the normalizers copy from
  the payload unchanged holds that Python value (\<open>JNull\<close> is \<^verbatim>\<open>None\<close>); the fields
  they compute have the computed type. The primary key is called \<open>id'\<close> here.
\<close>

record txn_values =
  source :: string
  source_id :: json
  reference_id :: json
  client_operation_id :: json
  order_id :: json
  project :: json
  merchant_id :: json
  amount :: decimal
  currency :: json
  fee :: "decimal option"
  amount_usd :: "decimal option"
  fee_usd :: "decimal option"
  exchange_rate :: "decimal option"
  status :: string
  original_status :: json
  user_id :: json
  user_email :: json
  user_phone :: json
  user_name :: json
  country :: json
  utr :: json
  payment_method :: json
  payment_product :: json
  created_at :: "datetime option"
  updated_at :: "datetime option"
  completed_at :: "datetime option"
  source_create_cursor :: json
  source_update_cursor :: json
  raw_data :: json
  data_hash :: string

record transaction = txn_values +
  id' :: uuid
  ingested_at :: datetime

text \<open>
  \<^verbatim>\<open>ReconciliationResult\<close> and \<^verbatim>\<open>ReconciliationRun\<close> of
  \<^verbatim>\<open>models/reconciliation.py\<close>. The result's \<^verbatim>\<open>client_operation_id\<close> column is the
  field \<open>business_key\<close>, and the run's columns carry the prefix \<open>run_\<close>, since a field name
  belongs to one record only. The server-side defaults of a result row (its own key and
  creation time) are no part of what the service computes and are left out.
\<close>

record recon_result =
  recon_run_id :: uuid
  recon_date :: day
  vima_txn_id :: "uuid option"
  payshack_txn_id :: "uuid option"
  business_key :: json
  match_status :: string
  discrepancy_type :: "string option"
  vima_amount :: "decimal option"
  payshack_amount :: "decimal option"
  amount_diff :: "decimal option"
  vima_status :: "string option"
  payshack_status :: "string option"
  details :: "string list option"


section \<open>Reconciliation service\<close>

text \<open>Truth value of a Python object, as \<^verbatim>\<open>if x:\<close> tests it.\<close>

fun py_truthy :: "json \<Rightarrow> bool" where
  "py_truthy JNull = False"
| "py_truthy (JBool b) = b"
| "py_truthy (JNum r) = (r \<noteq> 0)"
| "py_truthy (JStr s) = (s \<noteq> [])"
| "py_truthy (JArr xs) = (xs \<noteq> [])"
| "py_truthy (JObj kvs) = (kvs \<noteq> [])"

definition AMOUNT_TOLERANCE :: decimal where
  "AMOUNT_TOLERANCE = 1 / 100"

definition AMOUNT_TOLERANCE_PERCENT :: decimal where
  "AMOUNT_TOLERANCE_PERCENT = 1 / 1000"

text \<open>\<^verbatim>\<open>ReconciliationService._compare_transactions\<close>.\<close>

definition compare_transactions :: "uuid \<Rightarrow> day \<Rightarrow> transaction \<Rightarrow> transaction \<Rightarrow> recon_result" where
  "compare_transactions rid d vima payshack =
     (let diff = \<bar>amount vima - amount payshack\<bar>;
          tolerance = max AMOUNT_TOLERANCE (amount vima * AMOUNT_TOLERANCE_PERCENT);
          ds = (if diff > tolerance then [''amount''] else [])
             @ (if status vima \<noteq> status payshack then [''status''] else [])
      in case ds of
           primary # _ \<Rightarrow>
             \<lparr> recon_run_id = rid, recon_date = d,
               vima_txn_id = Some (id' vima), payshack_txn_id = Some (id' payshack),
               business_key = client_operation_id vima,
               match_status = ''discrepancy'',
               discrepancy_type = Some primary,
               vima_amount = Some (amount vima), payshack_amount = Some (amount payshack),
               amount_diff = (if ''amount'' \<in> set ds then Some diff else None),
               vima_status = Some (status vima), payshack_status = Some (status payshack),
               details = Some ds \<rparr>
         | [] \<Rightarrow>
             \<lparr> recon_run_id = rid, recon_date = d,
               vima_txn_id = Some (id' vima), payshack_txn_id = Some (id' payshack),
               business_key = client_operation_id vima,
               match_status = ''matched'',
               discrepancy_type = None,
               vima_amount = Some (amount vima), payshack_amount = Some (amount payshack),
               amount_diff = None,
               vima_status = Some (status vima), payshack_status = Some (status payshack),
               details = None \<rparr>)"

text \<open>The index of PayShack rows, lines 74 to 80 of \<^verbatim>\<open>run_for_date\<close>: a later row replaces
  an earlier one under the same key.\<close>

fun build_index :: "transaction list \<Rightarrow> (json \<rightharpoonup> transaction) \<Rightarrow> (json \<rightharpoonup> transaction)" where
  "build_index [] idx = idx"
| "build_index (txn # txns) idx =
     build_index txns
       (if py_truthy (order_id txn) then idx(order_id txn \<mapsto> txn)
        else if py_truthy (client_operation_id txn) then idx(client_operation_id txn \<mapsto> txn)
        else idx)"

definition missing_payshack_result :: "uuid \<Rightarrow> day \<Rightarrow> transaction \<Rightarrow> recon_result" where
  "missing_payshack_result rid d vima =
     \<lparr> recon_run_id = rid, recon_date = d,
       vima_txn_id = Some (id' vima), payshack_txn_id = None,
       business_key = client_operation_id vima,
       match_status = ''missing_payshack'',
       discrepancy_type = Some ''missing'',
       vima_amount = Some (amount vima), payshack_amount = None,
       amount_diff = None,
       vima_status = Some (status vima), payshack_status = None,
       details = None \<rparr>"

definition missing_vima_result :: "uuid \<Rightarrow> day \<Rightarrow> transaction \<Rightarrow> recon_result" where
  "missing_vima_result rid d payshack =
     \<lparr> recon_run_id = rid, recon_date = d,
       vima_txn_id = None, payshack_txn_id = Some (id' payshack),
       business_key = (if py_truthy (order_id payshack) then order_id payshack
                       else client_operation_id payshack),
       match_status = ''missing_vima'',
       discrepancy_type = Some ''missing'',
       vima_amount = None, payshack_amount = Some (amount payshack),
       amount_diff = None,
       vima_status = None, payshack_status = Some (status payshack),
       details = None \<rparr>"

text \<open>The loop over the Vima rows, lines 83 to 115: the results so far and the set
  \<^verbatim>\<open>matched_payshack_ids\<close> are the loop state.\<close>

fun match_vima ::
  "uuid \<Rightarrow> day \<Rightarrow> (json \<rightharpoonup> transaction) \<Rightarrow> transaction list
     \<Rightarrow> recon_result list \<times> uuid set \<Rightarrow> recon_result list \<times> uuid set" where
  "match_vima rid d idx [] st = st"
| "match_vima rid d idx (vima_txn # rest) (results, matched_ids) =
     (let matching_key = client_operation_id vima_txn in
      if \<not> py_truthy matching_key then match_vima rid d idx rest (results, matched_ids)
      else case idx matching_key of
             Some payshack_txn \<Rightarrow>
               match_vima rid d idx rest
                 (results @ [compare_transactions rid d vima_txn payshack_txn],
                  insert (id' payshack_txn) matched_ids)
           | None \<Rightarrow>
               match_vima rid d idx rest
                 (results @ [missing_payshack_result rid d vima_txn], matched_ids))"

text \<open>The loop over the PayShack rows, lines 117 to 131.\<close>

fun unmatched_payshack ::
  "uuid \<Rightarrow> day \<Rightarrow> uuid set \<Rightarrow> transaction list \<Rightarrow> recon_result list \<Rightarrow> recon_result list" where
  "unmatched_payshack rid d matched_ids [] results = results"
| "unmatched_payshack rid d matched_ids (payshack_txn # rest) results =
     unmatched_payshack rid d matched_ids rest
       (if id' payshack_txn \<notin> matched_ids
        then results @ [missing_vima_result rid d payshack_txn] else results)"

text \<open>Lines 74 to 131 together: the results of one pass over the two loaded lists.\<close>

definition match_transactions ::
  "uuid \<Rightarrow> day \<Rightarrow> transaction list \<Rightarrow> transaction list \<Rightarrow> recon_result list" where
  "match_transactions rid d vima_txns payshack_txns =
     (let payshack_index = build_index payshack_txns Map.empty;
          (results, matched_payshack_ids) = match_vima rid d payshack_index vima_txns ([], {})
      in unmatched_payshack rid d matched_payshack_ids payshack_txns results)"

text \<open>\<^verbatim>\<open>sum(1 for r in results if r.match_status == s)\<close>.\<close>

definition count_status :: "string \<Rightarrow> recon_result list \<Rightarrow> int" where
  "count_status s results = int (length (filter (\<lambda>r. match_status r = s) results))"


subsection \<open>One reconciliation pass against the database session\<close>














section \<open>Normalizers\<close>

text \<open>
  Library functions that the normalizers call and that are no code of this repository are
  parameters: the \<^verbatim>\<open>Decimal\<close> constructor on a string (\<open>None\<close> when it raises
  \<^verbatim>\<open>InvalidOperation\<close>; the special values NaN and Infinity are not represented),
  \<^verbatim>\<open>dateutil.parser.parse\<close> (\<open>None\<close> when it raises), \<^verbatim>\<open>str\<close> on a number, a list or
  a dict, \<^verbatim>\<open>str\<close> on a \<^verbatim>\<open>Decimal\<close>, \<^verbatim>\<open>datetime.isoformat\<close> and the SHA-256 hex digest.
\<close>

record pylib =
  decimal_of_str :: "string \<Rightarrow> decimal option"
  date_parse :: "string \<Rightarrow> datetime option"
  repr_json :: "json \<Rightarrow> string"
  str_decimal :: "decimal \<Rightarrow> string"
  isoformat :: "datetime \<Rightarrow> string"
  sha256_hexdigest :: "string \<Rightarrow> string"

text \<open>\<^verbatim>\<open>d.get(k, default)\<close>: \<open>None\<close> is the \<^verbatim>\<open>AttributeError\<close> of a value that is no dict.
  In the option monad below \<open>None\<close> always stands for a raised exception; the callers catch
  every exception of a normalizer alike and skip the record.\<close>

fun dict_get :: "json \<Rightarrow> string \<Rightarrow> json \<Rightarrow> json option" where
  "dict_get (JObj kvs) k dflt = Some (case map_of kvs k of None \<Rightarrow> dflt | Some v \<Rightarrow> v)"
| "dict_get _ k dflt = None"

fun py_str :: "pylib \<Rightarrow> json \<Rightarrow> string" where
  "py_str lib (JStr s) = s"
| "py_str lib JNull = ''None''"
| "py_str lib (JBool b) = (if b then ''True'' else ''False'')"
| "py_str lib v = repr_json lib v"

text \<open>\<^verbatim>\<open>Decimal(str(v))\<close>.\<close>

definition Decimal :: "pylib \<Rightarrow> json \<Rightarrow> decimal option" where
  "Decimal lib v = decimal_of_str lib (py_str lib v)"

text \<open>\<^verbatim>\<open>str.lower\<close>, \<^verbatim>\<open>str.upper\<close> and \<^verbatim>\<open>str.strip\<close> on ASCII text.\<close>

definition py_lower :: "string \<Rightarrow> string" where
  "py_lower s = map (\<lambda>c. let n = (of_char c :: nat) in
                        if 65 \<le> n \<and> n \<le> 90 then char_of (n + 32) else c) s"

definition py_upper :: "string \<Rightarrow> string" where
  "py_upper s = map (\<lambda>c. let n = (of_char c :: nat) in
                        if 97 \<le> n \<and> n \<le> 122 then char_of (n - 32) else c) s"

definition is_space :: "char \<Rightarrow> bool" where
  "is_space c = (let n = (of_char c :: nat) in (9 \<le> n \<and> n \<le> 13) \<or> (28 \<le> n \<and> n \<le> 32))"

definition py_strip :: "string \<Rightarrow> string" where
  "py_strip s = rev (dropWhile is_space (rev (dropWhile is_space s)))"

text \<open>\<^verbatim>\<open>original_status.lower() if original_status else ""\<close>: a truthy value that is no
  string has no \<^verbatim>\<open>lower\<close>.\<close>

definition status_key :: "json \<Rightarrow> string option" where
  "status_key original =
     (if py_truthy original
      then (case original of JStr s \<Rightarrow> Some (py_lower s) | _ \<Rightarrow> None)
      else Some '''')"

subsection \<open>Vima\<close>

definition vima_STATUS_MAP :: "string \<rightharpoonup> string" where
  "vima_STATUS_MAP =
     map_of [(''success'', ''success''), (''fail'', ''failed''), (''failed'', ''failed''),
             (''in_process'', ''pending''), (''in process'', ''pending''),
             (''user_input_required'', ''pending''), (''pending'', ''pending'')]"

text \<open>\<^verbatim>\<open>VimaNormalizer._parse_datetime\<close>.\<close>

definition vima_parse_datetime :: "pylib \<Rightarrow> json \<Rightarrow> datetime option" where
  "vima_parse_datetime lib v = (if \<not> py_truthy v then None else date_parse lib (py_str lib v))"

text \<open>\<^verbatim>\<open>VimaNormalizer._extract_fee\<close>; the outer \<open>None\<close> is an exception, the inner one the
  returned \<^verbatim>\<open>None\<close>.\<close>

definition vima_extract_fee :: "pylib \<Rightarrow> json \<Rightarrow> decimal option option" where
  "vima_extract_fee lib raw = do {
     card_finish \<leftarrow> dict_get raw ''card_finish'' (JArr []);
     case card_finish of
       JArr (first # _) \<Rightarrow> do {
         fee \<leftarrow> dict_get first ''charged_fee'' JNull;
         if fee \<noteq> JNull then do { d \<leftarrow> Decimal lib fee; Some (Some d) } else Some None }
     | _ \<Rightarrow> Some None }"

text \<open>\<^verbatim>\<open>_calculate_hash\<close>, the same in both normalizers.\<close>

definition calculate_hash :: "pylib \<Rightarrow> string \<Rightarrow> json \<Rightarrow> decimal \<Rightarrow> json \<Rightarrow> datetime option \<Rightarrow> string" where
  "calculate_hash lib src sid amt cur created =
     take 64 (sha256_hexdigest lib
       (src @ ''|'' @ py_str lib sid @ ''|'' @ str_decimal lib amt @ ''|'' @ py_str lib cur @ ''|''
          @ (case created of Some t \<Rightarrow> isoformat lib t | None \<Rightarrow> '''')))"

text \<open>The amount, lines 54 to 61 of \<^verbatim>\<open>VimaNormalizer.normalize\<close>: \<^verbatim>\<open>complete_amount\<close> when it
  is not \<^verbatim>\<open>None\<close>, otherwise the value under \<^verbatim>\<open>create_params\<close>, which is in minor units. The
  quotient of a decimal by 100 is exact up to the 28 significant digits of the default
  decimal context; the model does not round.\<close>

definition vima_amount :: "pylib \<Rightarrow> json \<Rightarrow> json \<Rightarrow> decimal option" where
  "vima_amount lib raw amount_data = do {
     complete_amount \<leftarrow> dict_get raw ''complete_amount'' JNull;
     if complete_amount = JNull
     then do {
       amount_value \<leftarrow> dict_get amount_data ''value'' (JNum 0);
       d \<leftarrow> Decimal lib amount_value;
       Some (d / 100) }
     else Decimal lib complete_amount }"

text \<open>\<^verbatim>\<open>a.get(k) or b.get(k', default)\<close>: the second lookup is made only when the first
  value is falsy.\<close>

definition get_or :: "json \<Rightarrow> string \<Rightarrow> json \<Rightarrow> string \<Rightarrow> json \<Rightarrow> json option" where
  "get_or a k b k' dflt = do {
     v \<leftarrow> dict_get a k JNull;
     if py_truthy v then Some v else dict_get b k' dflt }"

text \<open>The user name, lines 79 to 81, and the matching key, lines 84 to 88.\<close>

definition vima_user_name :: "pylib \<Rightarrow> json \<Rightarrow> json option" where
  "vima_user_name lib person = do {
     first_name \<leftarrow> dict_get person ''first_name'' (JStr []);
     last_name \<leftarrow> dict_get person ''last_name'' (JStr []);
     let full_name = py_strip (py_str lib first_name @ '' '' @ py_str lib last_name);
     Some (if full_name \<noteq> [] then JStr full_name else JNull) }"

definition vima_client_op_id :: "pylib \<Rightarrow> json \<Rightarrow> json \<Rightarrow> json option" where
  "vima_client_op_id lib raw identifiers = do {
     v \<leftarrow> dict_get raw ''client_operation_id'' JNull;
     if py_truthy v then Some v
     else do {
       c_id \<leftarrow> dict_get identifiers ''c_id'' (JStr []);
       Some (if py_str lib c_id \<noteq> [] then JStr (py_str lib c_id) else JNull) } }"

text \<open>\<^verbatim>\<open>raw.get("user_id") or payer.get("customer_account", {}).get("id")\<close>.\<close>

definition vima_user_id :: "json \<Rightarrow> json \<Rightarrow> json option" where
  "vima_user_id raw payer = do {
     v \<leftarrow> dict_get raw ''user_id'' JNull;
     if py_truthy v then Some v
     else do {
       customer_account \<leftarrow> dict_get payer ''customer_account'' (JObj []);
       dict_get customer_account ''id'' JNull } }"

text \<open>\<^verbatim>\<open>STATUS_MAP.get(original_status.lower() if original_status else "", "pending")\<close>.\<close>

definition map_status :: "(string \<rightharpoonup> string) \<Rightarrow> json \<Rightarrow> string option" where
  "map_status table original = do {
     key \<leftarrow> status_key original;
     Some (case table key of Some s \<Rightarrow> s | None \<Rightarrow> ''pending'') }"

text \<open>\<^verbatim>\<open>VimaNormalizer.normalize\<close>. The dict it returns has no USD keys; the columns they
  would fill stay empty.\<close>

definition normalize :: "pylib \<Rightarrow> json \<Rightarrow> txn_values option" where
  "normalize lib raw = do {
     create_params \<leftarrow> dict_get raw ''create_params'' (JObj []);
     params \<leftarrow> dict_get create_params ''params'' (JObj []);
     payment \<leftarrow> dict_get params ''payment'' (JObj []);
     payer \<leftarrow> dict_get payment ''payer'' (JObj []);
     person \<leftarrow> dict_get payer ''person'' (JObj []);
     amount_data \<leftarrow> dict_get payment ''amount'' (JObj []);
     client_data \<leftarrow> dict_get payment ''client'' (JObj []);
     identifiers \<leftarrow> dict_get payment ''identifiers'' (JObj []);
     amount \<leftarrow> vima_amount lib raw amount_data;
     currency \<leftarrow> get_or raw ''complete_currency'' amount_data ''currency'' (JStr ''INR'');
     original_status \<leftarrow> get_or raw ''payment_status'' raw ''current_status'' (JStr []);
     status \<leftarrow> map_status vima_STATUS_MAP original_status;
     operation_created_at \<leftarrow> dict_get raw ''operation_created_at'' JNull;
     operation_modified_at \<leftarrow> dict_get raw ''operation_modified_at'' JNull;
     complete_created_at \<leftarrow> dict_get raw ''complete_created_at'' JNull;
     user_name \<leftarrow> vima_user_name lib person;
     client_op_id \<leftarrow> vima_client_op_id lib raw identifiers;
     operation_id \<leftarrow> dict_get raw ''operation_id'' (JStr []);
     reference_id \<leftarrow> dict_get raw ''reference_id'' JNull;
     project \<leftarrow> dict_get raw ''project'' JNull;
     credentials_owner \<leftarrow> dict_get raw ''credentials_owner'' JNull;
     fee \<leftarrow> vima_extract_fee lib raw;
     user_id \<leftarrow> vima_user_id raw payer;
     user_email \<leftarrow> get_or payer ''email'' raw ''contact'' JNull;
     user_phone \<leftarrow> dict_get payer ''phone'' JNull;
     country \<leftarrow> dict_get client_data ''country'' JNull;
     payment_method_code \<leftarrow> dict_get raw ''payment_method_code'' JNull;
     payment_product \<leftarrow> dict_get raw ''payment_product'' JNull;
     operation_create_id \<leftarrow> dict_get raw ''operation_create_id'' JNull;
     operation_update_id \<leftarrow> dict_get raw ''operation_update_id'' JNull;
     Some \<lparr> source = ''vima'', source_id = operation_id, reference_id = reference_id,
            client_operation_id = client_op_id, order_id = JNull, project = project,
            merchant_id = credentials_owner, amount = amount, currency = currency, fee = fee,
            amount_usd = None, fee_usd = None, exchange_rate = None,
            status = status, original_status = original_status, user_id = user_id,
            user_email = user_email, user_phone = user_phone, user_name = user_name,
            country = country, utr = JNull, payment_method = payment_method_code,
            payment_product = payment_product,
            created_at = vima_parse_datetime lib operation_created_at,
            updated_at = vima_parse_datetime lib operation_modified_at,
            completed_at = vima_parse_datetime lib complete_created_at,
            source_create_cursor = operation_create_id,
            source_update_cursor = operation_update_id, raw_data = raw,
            data_hash = calculate_hash lib ''vima'' operation_id amount currency
                          (vima_parse_datetime lib operation_created_at) \<rparr> }"

subsection \<open>Currency service\<close>

text \<open>\<^verbatim>\<open>CurrencyService.STATIC_RATES_TO_USD\<close> and \<^verbatim>\<open>convert_sync\<close> of
  \<^verbatim>\<open>services/currency.py\<close>. A rate is a float in the source and enters the arithmetic as
  \<^verbatim>\<open>Decimal(str(rate))\<close>: it is the decimal that its literal denotes.
  \<^verbatim>\<open>quantize(Decimal("0.0001"))\<close> rounds to four places, half to even.\<close>

definition STATIC_RATES_TO_USD :: "string \<rightharpoonup> decimal" where
  "STATIC_RATES_TO_USD =
     map_of [(''USD'', 1), (''INR'', 12 / 1000), (''EUR'', 108 / 100), (''GBP'', 127 / 100),
             (''RUB'', 11 / 1000), (''AED'', 27 / 100), (''BRL'', 20 / 100), (''CAD'', 74 / 100),
             (''AUD'', 65 / 100), (''JPY'', 67 / 10000), (''CNY'', 14 / 100),
             (''KRW'', 75 / 100000)]"

definition DEFAULT_INR_USD_RATE :: decimal where
  "DEFAULT_INR_USD_RATE = 12 / 1000"

definition quantize4 :: "decimal \<Rightarrow> decimal" where
  "quantize4 x =
     (let y = x * 10000; f = \<lfloor>y\<rfloor>; r = y - of_int f
      in of_int (if r < 1 / 2 then f else if 1 / 2 < r then f + 1
                 else if even f then f else f + 1) / 10000)"

definition convert_sync :: "decimal \<Rightarrow> string \<Rightarrow> decimal option \<Rightarrow> decimal" where
  "convert_sync amt cur rate =
     (if py_upper cur = ''USD'' then amt
      else let r = (case rate of
                      None \<Rightarrow> (case STATIC_RATES_TO_USD (py_upper cur) of
                                 None \<Rightarrow> 0 | Some x \<Rightarrow> x)
                    | Some x \<Rightarrow> x)
           in if r = 0 then 0 else quantize4 (amt * r))"

subsection \<open>PayShack\<close>

definition payshack_STATUS_MAP :: "string \<rightharpoonup> string" where
  "payshack_STATUS_MAP =
     map_of [(''success'', ''success''), (''failed'', ''failed''), (''initiated'', ''pending''),
             (''pending'', ''pending''), (''in process'', ''processing''),
             (''in_process'', ''processing''), (''incomplete'', ''pending''),
             (''refunded'', ''refunded''), (''cb_refunded'', ''refunded''),
             (''tampered'', ''failed'')]"

definition CLIENT_PROJECT_MAP :: "string \<rightharpoonup> string" where
  "CLIENT_PROJECT_MAP =
     map_of [(''91G_TECH_PVT_LTD'', ''91game''), (''91g_tech_pvt_ltd'', ''91game''),
             (''IG Indigate P_Out'', ''indigate_payout''), (''MNCL_M5_Pvt_Ltd'', ''mncl_m5''),
             (''Mn CL THREE_PVT_LTD'', ''mncl_three'')]"

text \<open>\<^verbatim>\<open>CLIENT_PROJECT_MAP.get(client_name, client_name)\<close>: a list or a dict is unhashable
  and raises.\<close>

definition project_of :: "json \<Rightarrow> json option" where
  "project_of client_name =
     (case client_name of
        JStr s \<Rightarrow> Some (case CLIENT_PROJECT_MAP s of Some p \<Rightarrow> JStr p | None \<Rightarrow> client_name)
      | JArr _ \<Rightarrow> None
      | JObj _ \<Rightarrow> None
      | _ \<Rightarrow> Some client_name)"

text \<open>\<^verbatim>\<open>PayShackNormalizer._parse_datetime\<close>: a naive value is taken as UTC.\<close>

definition payshack_parse_datetime :: "pylib \<Rightarrow> json \<Rightarrow> datetime option" where
  "payshack_parse_datetime lib v =
     (if \<not> py_truthy v then None
      else case date_parse lib (py_str lib v) of
             None \<Rightarrow> None
           | Some dt \<Rightarrow> Some (if tzoffset dt = None then dt\<lparr>tzoffset := Some 0\<rparr> else dt))"

text \<open>\<^verbatim>\<open>x = raw.get(k)\<close> followed by \<^verbatim>\<open>Decimal(str(x))\<close> when \<^verbatim>\<open>x is not None\<close>: the outer
  \<open>None\<close> is an exception, the inner one the value \<^verbatim>\<open>None\<close>.\<close>

definition optional_decimal :: "pylib \<Rightarrow> json \<Rightarrow> string \<Rightarrow> decimal option option" where
  "optional_decimal lib raw k = do {
     x \<leftarrow> dict_get raw k JNull;
     if x \<noteq> JNull then do { d \<leftarrow> Decimal lib x; Some (Some d) } else Some None }"

text \<open>\<^verbatim>\<open>PayShackNormalizer._extract_fee\<close>.\<close>

definition payshack_extract_fee :: "pylib \<Rightarrow> json \<Rightarrow> decimal option option" where
  "payshack_extract_fee lib raw = optional_decimal lib raw ''totalCommissionAmount''"

text \<open>The conversion to USD, lines 89 to 92: the rate is the static one, and a fee that is
  \<^verbatim>\<open>None\<close> or zero has no USD value.\<close>

definition inr_rate :: decimal where
  "inr_rate = (case STATIC_RATES_TO_USD ''INR'' of Some r \<Rightarrow> r | None \<Rightarrow> DEFAULT_INR_USD_RATE)"

definition fee_to_usd :: "decimal option \<Rightarrow> decimal option" where
  "fee_to_usd commission =
     (case commission of
        Some f \<Rightarrow> if f \<noteq> 0 then Some (convert_sync f ''INR'' (Some inr_rate)) else None
      | None \<Rightarrow> None)"

text \<open>\<^verbatim>\<open>PayShackNormalizer.normalize_payin\<close>.\<close>

definition normalize_payin :: "pylib \<Rightarrow> json \<Rightarrow> txn_values option" where
  "normalize_payin lib raw = do {
     raw_amount \<leftarrow> dict_get raw ''amount'' (JNum 0);
     amount \<leftarrow> Decimal lib raw_amount;
     paid_amount \<leftarrow> optional_decimal lib raw ''paidAmount'';
     original_status \<leftarrow> dict_get raw ''txnStatus'' (JStr []);
     status \<leftarrow> map_status payshack_STATUS_MAP original_status;
     createdAt \<leftarrow> dict_get raw ''createdAt'' JNull;
     modifiedAt \<leftarrow> dict_get raw ''modifiedAt'' JNull;
     client_name \<leftarrow> dict_get raw ''clientName'' (JStr []);
     project \<leftarrow> project_of client_name;
     order_id \<leftarrow> dict_get raw ''orderId'' JNull;
     fee \<leftarrow> payshack_extract_fee lib raw;
     txnId \<leftarrow> dict_get raw ''txnId'' (JStr []);
     spTxnId \<leftarrow> dict_get raw ''spTxnId'' JNull;
     clientId \<leftarrow> dict_get raw ''clientId'' JNull;
     payerVpa \<leftarrow> dict_get raw ''payerVpa'' JNull;
     utr \<leftarrow> dict_get raw ''utr'' JNull;
     transactionType \<leftarrow> dict_get raw ''transactionType'' (JStr ''UPI'');
     Some \<lparr> source = ''payshack'', source_id = txnId, reference_id = spTxnId,
            client_operation_id = order_id, order_id = order_id, project = project,
            merchant_id = clientId, amount = amount, currency = JStr ''INR'', fee = fee,
            amount_usd = Some (convert_sync amount ''INR'' (Some inr_rate)),
            fee_usd = fee_to_usd fee, exchange_rate = Some inr_rate,
            status = status, original_status = original_status, user_id = JNull,
            user_email = JNull, user_phone = JNull, user_name = payerVpa,
            country = JStr ''IN'', utr = utr, payment_method = transactionType,
            payment_product = JStr ''payin'',
            created_at = payshack_parse_datetime lib createdAt,
            updated_at = payshack_parse_datetime lib modifiedAt,
            completed_at = (if status = ''success''
                            then payshack_parse_datetime lib modifiedAt else None),
            source_create_cursor = JNull, source_update_cursor = JNull, raw_data = raw,
            data_hash = calculate_hash lib ''payshack'' txnId amount (JStr ''INR'')
                          (payshack_parse_datetime lib createdAt) \<rparr> }"

text \<open>\<^verbatim>\<open>PayShackNormalizer.normalize_payout\<close>.\<close>

definition normalize_payout :: "pylib \<Rightarrow> json \<Rightarrow> txn_values option" where
  "normalize_payout lib raw = do {
     raw_amount \<leftarrow> dict_get raw ''amount'' (JNum 0);
     amount \<leftarrow> Decimal lib raw_amount;
     original_status \<leftarrow> get_or raw ''txnStatus'' raw ''status'' (JStr []);
     status \<leftarrow> map_status payshack_STATUS_MAP original_status;
     createdAt \<leftarrow> dict_get raw ''createdAt'' JNull;
     modifiedAt \<leftarrow> dict_get raw ''modifiedAt'' JNull;
     client_name \<leftarrow> dict_get raw ''clientName'' (JStr []);
     project \<leftarrow> project_of client_name;
     order_id \<leftarrow> dict_get raw ''orderId'' JNull;
     fee \<leftarrow> payshack_extract_fee lib raw;
     source_id \<leftarrow> get_or raw ''txnId'' raw ''transactionId'' (JStr []);
     clientId \<leftarrow> dict_get raw ''clientId'' JNull;
     beneEmail \<leftarrow> dict_get raw ''beneEmail'' JNull;
     beneName \<leftarrow> dict_get raw ''beneName'' JNull;
     utr \<leftarrow> dict_get raw ''utr'' JNull;
     Some \<lparr> source = ''payshack'', source_id = source_id, reference_id = JNull,
            client_operation_id = order_id, order_id = order_id, project = project,
            merchant_id = clientId, amount = amount, currency = JStr ''INR'', fee = fee,
            amount_usd = Some (convert_sync amount ''INR'' (Some inr_rate)),
            fee_usd = fee_to_usd fee, exchange_rate = Some inr_rate,
            status = status, original_status = original_status, user_id = JNull,
            user_email = beneEmail, user_phone = JNull, user_name = beneName,
            country = JStr ''IN'', utr = utr, payment_method = JStr ''payout'',
            payment_product = JStr ''payout'',
            created_at = payshack_parse_datetime lib createdAt,
            updated_at = payshack_parse_datetime lib modifiedAt,
            completed_at = (if status = ''success''
                            then payshack_parse_datetime lib modifiedAt else None),
            source_create_cursor = JNull, source_update_cursor = JNull, raw_data = raw,
            data_hash = calculate_hash lib ''payshack'' source_id amount (JStr ''INR'')
                          (payshack_parse_datetime lib createdAt) \<rparr> }"


section \<open>Upsert into the canonical store\<close>

text \<open>
  The \<^verbatim>\<open>transactions\<close> table is the list of its rows. What the database supplies on an
  insert, the primary key (\<^verbatim>\<open>gen_random_uuid()\<close>) and the ingestion time (\<^verbatim>\<open>NOW()\<close>),
  and the clock that \<^verbatim>\<open>datetime.now\<close> reads are parameters.
\<close>

record db_env =
  gen_random_uuid :: "transaction list \<Rightarrow> uuid"
  NOW :: datetime
  utcnow :: datetime

text \<open>The row that \<^verbatim>\<open>insert(Transaction).values(...)\<close> proposes for a normalized dict.\<close>

definition insert_row :: "db_env \<Rightarrow> transaction list \<Rightarrow> txn_values \<Rightarrow> transaction" where
  "insert_row env rows txn =
     \<lparr> source = source txn, source_id = source_id txn, reference_id = reference_id txn,
       client_operation_id = client_operation_id txn, order_id = order_id txn,
       project = project txn, merchant_id = merchant_id txn, amount = amount txn,
       currency = currency txn, fee = fee txn, amount_usd = amount_usd txn,
       fee_usd = fee_usd txn, exchange_rate = exchange_rate txn, status = status txn,
       original_status = original_status txn, user_id = user_id txn,
       user_email = user_email txn, user_phone = user_phone txn, user_name = user_name txn,
       country = country txn, utr = utr txn, payment_method = payment_method txn,
       payment_product = payment_product txn, created_at = created_at txn,
       updated_at = updated_at txn, completed_at = completed_at txn,
       source_create_cursor = source_create_cursor txn,
       source_update_cursor = source_update_cursor txn, raw_data = raw_data txn,
       data_hash = data_hash txn,
       id' = gen_random_uuid env rows, ingested_at = NOW env \<rparr>"

text \<open>\<^verbatim>\<open>INSERT ... ON CONFLICT (data_hash) DO UPDATE SET ...\<close> for one proposed row: a row
  with the same \<^verbatim>\<open>data_hash\<close> is updated by the \<^verbatim>\<open>SET\<close> clause \<open>on_conflict\<close> (which sees
  the stored row and the proposed values), otherwise the proposed row is appended.\<close>

definition upsert_row ::
  "(transaction \<Rightarrow> txn_values \<Rightarrow> transaction) \<Rightarrow> db_env \<Rightarrow> transaction list \<Rightarrow> txn_values
     \<Rightarrow> transaction list" where
  "upsert_row on_conflict env rows txn =
     (if \<exists>r\<in>set rows. data_hash r = data_hash txn
      then map (\<lambda>r. if data_hash r = data_hash txn then on_conflict r txn else r) rows
      else rows @ [insert_row env rows txn])"

text \<open>The \<^verbatim>\<open>set_\<close> dict of \<^verbatim>\<open>VimaSyncService._upsert_transactions\<close>, lines 215 to 222.\<close>

definition vima_on_conflict :: "transaction \<Rightarrow> txn_values \<Rightarrow> transaction" where
  "vima_on_conflict row excluded =
     row\<lparr> status := status excluded,
          original_status := original_status excluded,
          updated_at := updated_at excluded,
          completed_at := completed_at excluded,
          source_update_cursor := source_update_cursor excluded,
          raw_data := raw_data excluded \<rparr>"

datatype db_error = CardinalityViolation

text \<open>\<^verbatim>\<open>VimaSyncService._upsert_transactions\<close>: one statement for the whole batch. PostgreSQL
  rejects such a statement when two proposed rows have the same conflict key (``ON CONFLICT
  DO UPDATE command cannot affect row a second time''); then nothing is written. Other
  rejections by the database (a null in a column declared not null, a value of the wrong
  type) are outside the model.\<close>

definition vima_upsert_transactions ::
  "db_env \<Rightarrow> transaction list \<Rightarrow> txn_values list \<Rightarrow> db_error + transaction list" where
  "vima_upsert_transactions env rows txns =
     (if txns = [] then Inr rows
      else if \<not> distinct (map data_hash txns) then Inl CardinalityViolation
      else Inr (foldl (upsert_row vima_on_conflict env) rows txns))"

text \<open>The \<^verbatim>\<open>set_\<close> dict of \<^verbatim>\<open>PayShackSyncService._upsert_transactions\<close>, lines 372 to 383.\<close>

definition payshack_on_conflict :: "datetime \<Rightarrow> transaction \<Rightarrow> txn_values \<Rightarrow> transaction" where
  "payshack_on_conflict t row txn =
     row\<lparr> status := status txn,
          original_status := original_status txn,
          updated_at := updated_at txn,
          completed_at := completed_at txn,
          utr := utr txn,
          amount_usd := amount_usd txn,
          fee_usd := fee_usd txn,
          exchange_rate := exchange_rate txn,
          raw_data := raw_data txn,
          ingested_at := t \<rparr>"

text \<open>\<^verbatim>\<open>PayShackSyncService._upsert_transactions\<close>: one statement per record; every statement
  reports one affected row, so \<^verbatim>\<open>inserted\<close> counts them all. The result is the returned
  dict (total, inserted, updated) and the table.\<close>

definition payshack_upsert_transactions ::
  "db_env \<Rightarrow> transaction list \<Rightarrow> txn_values list \<Rightarrow> (int \<times> int \<times> int) \<times> transaction list" where
  "payshack_upsert_transactions env rows txns =
     (if txns = [] then ((0, 0, 0), rows)
      else ((int (length txns), int (length txns), 0),
            foldl (upsert_row (payshack_on_conflict (utcnow env)) env) rows txns))"

text \<open>The columns that identify a row and its payment: the two keys of the table and the
  source, source-native id, amount, currency, creation time and business keys.\<close>

definition identity_columns ::
  "transaction \<Rightarrow> uuid \<times> string \<times> string \<times> json \<times> decimal \<times> json \<times> datetime option \<times> json \<times> json \<times> json" where
  "identity_columns t =
     (id' t, data_hash t, source t, source_id t, amount t, currency t, created_at t,
      client_operation_id t, order_id t, reference_id t)"


section \<open>Source connectors\<close>

text \<open>
  What an HTTP call gives back: a response with its status code and its body parsed as
  JSON (\<open>None\<close> when the body is no JSON), or a failure of the request itself (timeout,
  connection error). An exception of a connector is the provider's API error, with the
  status code when there is one, another Python exception, or the interpreter's
  \<^verbatim>\<open>RecursionError\<close>.

  The \<^verbatim>\<open>tenacity\<close> decorator of the fetching methods retries on
  \<^verbatim>\<open>httpx.TimeoutException\<close> and \<^verbatim>\<open>httpx.ConnectError\<close> only; both are
  \<^verbatim>\<open>httpx.RequestError\<close>s, which the method bodies catch and turn into API errors, so the
  decorator never sees them and never retries.
\<close>

datatype http_response =
    HttpResponse int "json option"
  | HttpRequestError string

datatype client_error =
    APIError string "int option"
  | PyError string
  | RecursionError

text \<open>\<^verbatim>\<open>response.raise_for_status()\<close> passes the 2xx codes.\<close>

definition is_success :: "int \<Rightarrow> bool" where
  "is_success code = (200 \<le> code \<and> code < 300)"

text \<open>\<^verbatim>\<open>a == b\<close> on scalars (a bool is a number in Python) and \<^verbatim>\<open>xs[-1]\<close>.\<close>

definition py_eq :: "json \<Rightarrow> json \<Rightarrow> bool" where
  "py_eq a b =
     (case (a, b) of
        (JBool x, JNum r) \<Rightarrow> r = (if x then 1 else 0)
      | (JNum r, JBool x) \<Rightarrow> r = (if x then 1 else 0)
      | _ \<Rightarrow> a = b)"

definition py_last :: "json \<Rightarrow> json option" where
  "py_last v =
     (case v of
        JArr xs \<Rightarrow> (if xs = [] then None else Some (last xs))
      | JStr s \<Rightarrow> (if s = [] then None else Some (JStr [last s]))
      | _ \<Rightarrow> None)"

subsection \<open>Vima client\<close>

text \<open>The Vima server answers the request with number \<open>n\<close> (counted from 0) and cursor
  parameter \<open>c\<close> by \<open>vima_server n c\<close>; the state of the world is the number of requests
  sent so far.\<close>

type_synonym vima_server = "nat \<Rightarrow> json \<Rightarrow> http_response"

text \<open>\<^verbatim>\<open>VimaClient.get_operations\<close>, from the response on.\<close>

definition get_operations :: "vima_server \<Rightarrow> json \<Rightarrow> nat \<Rightarrow> (client_error + json) \<times> nat" where
  "get_operations server cursor sent =
     (case server sent cursor of
        HttpRequestError e \<Rightarrow> (Inl (APIError (''Vima request failed: '' @ e) None), Suc sent)
      | HttpResponse code body \<Rightarrow>
          if \<not> is_success code then (Inl (APIError ''Vima API error'' (Some code)), Suc sent)
          else (case body of
                  None \<Rightarrow> (Inl (PyError ''JSONDecodeError''), Suc sent)
                | Some (JArr xs) \<Rightarrow> (Inr (JArr xs), Suc sent)
                | Some (JObj kvs) \<Rightarrow>
                    (case map_of kvs ''operations'' of
                       Some ops \<Rightarrow> (Inr ops, Suc sent)
                     | None \<Rightarrow> (Inr (JArr []), Suc sent))
                | Some _ \<Rightarrow> (Inr (JArr []), Suc sent)))"

text \<open>\<^verbatim>\<open>VimaClient.get_all_operations\<close>, run to its end: the batches it yields, the exception
  that ended it if any, and the number of requests sent.\<close>

function get_all_operations_loop ::
  "vima_server \<Rightarrow> int \<Rightarrow> json \<Rightarrow> int \<Rightarrow> json list \<Rightarrow> nat
     \<Rightarrow> (client_error option \<times> json list) \<times> nat" where
  "get_all_operations_loop server max_batches cursor batch_count yielded sent =
     (if batch_count < max_batches
      then (case get_operations server cursor sent of
              (Inl e, sent1) \<Rightarrow> ((Some e, yielded), sent1)
            | (Inr operations, sent1) \<Rightarrow>
                if \<not> py_truthy operations then ((None, yielded), sent1)
                else (case py_last operations of
                        None \<Rightarrow> ((Some (PyError ''operations[-1]''), yielded @ [operations]), sent1)
                      | Some last_op \<Rightarrow>
                          (case dict_get last_op ''operation_create_id'' JNull of
                             None \<Rightarrow>
                               ((Some (PyError ''AttributeError''), yielded @ [operations]), sent1)
                           | Some new_cursor \<Rightarrow>
                               if \<not> py_truthy new_cursor \<or> py_eq new_cursor cursor
                               then ((None, yielded @ [operations]), sent1)
                               else get_all_operations_loop server max_batches new_cursor
                                      (batch_count + 1) (yielded @ [operations]) sent1)))
      else ((None, yielded), sent))"
  by pat_completeness auto
termination
  by (relation "measure (\<lambda>(server, max_batches, cursor, batch_count, yielded, sent).
                          nat (max_batches - batch_count))") auto

declare get_all_operations_loop.simps [simp del]

definition get_all_operations ::
  "vima_server \<Rightarrow> json \<Rightarrow> int \<Rightarrow> nat \<Rightarrow> (client_error option \<times> json list) \<times> nat" where
  "get_all_operations server from_operation_create_id max_batches sent =
     get_all_operations_loop server max_batches from_operation_create_id 0 [] sent"

subsection \<open>PayShack client\<close>

text \<open>The requests of the PayShack client, the server that answers the request with number
  \<open>n\<close>, and the clock, read as a function of the number of requests sent. The state of a
  connection is the authentication state of the client object and the list of the requests
  sent.\<close>

datatype endpoint = Payin | Payout

datatype request = Login | Fetch endpoint int

record payshack_api =
  respond :: "nat \<Rightarrow> request \<Rightarrow> http_response"
  clock :: "nat \<Rightarrow> int"

record connection =
  token :: json
  client_id :: json
  refresh_token :: json
  token_expires_at :: "int option"
  requests :: "request list"

text \<open>\<^verbatim>\<open>PayShackClient.login\<close>: the token is valid for 30 minutes (in microseconds here).\<close>

definition login :: "payshack_api \<Rightarrow> connection \<Rightarrow> (client_error + json) \<times> connection" where
  "login api c =
     (let c1 = c\<lparr>requests := requests c @ [Login]\<rparr> in
      case respond api (length (requests c)) Login of
        HttpRequestError e \<Rightarrow> (Inl (APIError (''Login request failed: '' @ e) None), c1)
      | HttpResponse code body \<Rightarrow>
          if \<not> is_success code then (Inl (APIError ''Login HTTP error'' (Some code)), c1)
          else (case body of
                  None \<Rightarrow> (Inl (PyError ''JSONDecodeError''), c1)
                | Some data \<Rightarrow>
                    (case dict_get data ''success'' JNull of
                       None \<Rightarrow> (Inl (PyError ''AttributeError''), c1)
                     | Some ok \<Rightarrow>
                         if \<not> py_truthy ok then (Inl (APIError ''Login failed'' None), c1)
                         else (case dict_get data ''data'' (JObj []) of
                                 None \<Rightarrow> (Inl (PyError ''AttributeError''), c1)
                               | Some auth_data \<Rightarrow>
                                   (case (dict_get auth_data ''token'' JNull,
                                          dict_get auth_data ''clientId'' JNull,
                                          dict_get auth_data ''refreshToken'' JNull) of
                                      (Some tok, Some cid, Some rt) \<Rightarrow>
                                        (Inr auth_data,
                                         c1\<lparr> token := tok, client_id := cid,
                                              refresh_token := rt,
                                              token_expires_at :=
                                                Some (clock api (length (requests c1))
                                                      + 30 * 60 * 1000000) \<rparr>)
                                    | _ \<Rightarrow> (Inl (PyError ''AttributeError''), c1))))))"

text \<open>\<^verbatim>\<open>_is_token_expired\<close> (five minutes of margin) and \<^verbatim>\<open>_ensure_auth\<close>.\<close>

definition is_token_expired :: "payshack_api \<Rightarrow> connection \<Rightarrow> bool" where
  "is_token_expired api c =
     (case token_expires_at c of
        None \<Rightarrow> True
      | Some t \<Rightarrow> t - 5 * 60 * 1000000 \<le> clock api (length (requests c)))"

definition ensure_auth :: "payshack_api \<Rightarrow> connection \<Rightarrow> client_error option \<times> connection" where
  "ensure_auth api c =
     (if \<not> py_truthy (token c) \<or> is_token_expired api c
      then (case login api c of (Inl e, c1) \<Rightarrow> (Some e, c1) | (Inr _, c1) \<Rightarrow> (None, c1))
      else (None, c))"

text \<open>The part of the fetching methods between \<^verbatim>\<open>response.json()\<close> and \<^verbatim>\<open>return result\<close>:
  \<^verbatim>\<open>len(transactions)\<close> is taken for the log line.\<close>

definition has_len :: "json \<Rightarrow> bool" where
  "has_len v = (case v of JArr _ \<Rightarrow> True | JStr _ \<Rightarrow> True | JObj _ \<Rightarrow> True | _ \<Rightarrow> False)"

definition decode_page :: "json option \<Rightarrow> client_error + json" where
  "decode_page body =
     (case body of
        None \<Rightarrow> Inl (PyError ''JSONDecodeError'')
      | Some data \<Rightarrow>
          (case dict_get data ''success'' JNull of
             None \<Rightarrow> Inl (PyError ''AttributeError'')
           | Some ok \<Rightarrow>
               if \<not> py_truthy ok then Inl (APIError ''Fetch failed'' None)
               else (case dict_get data ''data'' (JObj []) of
                       None \<Rightarrow> Inl (PyError ''AttributeError'')
                     | Some result \<Rightarrow>
                         (case dict_get result ''transactions'' (JArr []) of
                            None \<Rightarrow> Inl (PyError ''AttributeError'')
                          | Some txns \<Rightarrow>
                              if has_len txns then Inr result
                              else Inl (PyError ''TypeError'')))))"

text \<open>
  \<^verbatim>\<open>PayShackClient.get_payin_transactions\<close> and \<^verbatim>\<open>get_payout_transactions\<close>, which differ
  in the endpoint only. On a 401 or 403 the method drops the token, authenticates and calls
  itself with the same arguments. The first argument is the number of nested calls that
  the interpreter still allows: Python ends a deeper recursion with \<^verbatim>\<open>RecursionError\<close>.
\<close>

fun get_transactions ::
  "nat \<Rightarrow> endpoint \<Rightarrow> payshack_api \<Rightarrow> int \<Rightarrow> connection \<Rightarrow> (client_error + json) \<times> connection" where
  "get_transactions 0 ep api page c = (Inl RecursionError, c)"
| "get_transactions (Suc depth) ep api page c =
     (case ensure_auth api c of
        (Some e, c1) \<Rightarrow> (Inl e, c1)
      | (None, c1) \<Rightarrow>
          (let c2 = c1\<lparr>requests := requests c1 @ [Fetch ep page]\<rparr> in
           case respond api (length (requests c1)) (Fetch ep page) of
             HttpRequestError e \<Rightarrow> (Inl (APIError (''Request failed: '' @ e) None), c2)
           | HttpResponse code body \<Rightarrow>
               if is_success code then (decode_page body, c2)
               else if code = 401 \<or> code = 403
               then (case ensure_auth api (c2\<lparr>token := JNull\<rparr>) of
                       (Some e, c3) \<Rightarrow> (Inl e, c3)
                     | (None, c3) \<Rightarrow> get_transactions depth ep api page c3)
               else (Inl (APIError ''HTTP error'' (Some code)), c2)))"


definition get_payout_transactions ::
  "nat \<Rightarrow> payshack_api \<Rightarrow> int \<Rightarrow> connection \<Rightarrow> (client_error + json) \<times> connection" where
  "get_payout_transactions depth = get_transactions depth Payout"

text \<open>\<^verbatim>\<open>page >= total_pages\<close> for an int and a JSON value: a value that is no number raises
  \<^verbatim>\<open>TypeError\<close>.\<close>

definition py_ge :: "int \<Rightarrow> json \<Rightarrow> bool option" where
  "py_ge n v =
     (case v of
        JNum r \<Rightarrow> Some (r \<le> of_int n)
      | JBool b \<Rightarrow> Some ((if b then 1 else 0) \<le> n)
      | _ \<Rightarrow> None)"

text \<open>\<^verbatim>\<open>PayShackClient.get_all_payin_transactions\<close>, run to its end: the batches it yields
  and the exception that ended it if any.\<close>

function get_all_transactions_loop ::
  "nat \<Rightarrow> endpoint \<Rightarrow> payshack_api \<Rightarrow> int \<Rightarrow> int \<Rightarrow> json list \<Rightarrow> connection
     \<Rightarrow> (client_error option \<times> json list) \<times> connection" where
  "get_all_transactions_loop depth ep api max_pages page yielded c =
     (if page \<le> max_pages
      then (case get_transactions depth ep api page c of
              (Inl e, c1) \<Rightarrow> ((Some e, yielded), c1)
            | (Inr result, c1) \<Rightarrow>
                (case dict_get result ''transactions'' (JArr []) of
                   None \<Rightarrow> ((Some (PyError ''AttributeError''), yielded), c1)
                 | Some txns \<Rightarrow>
                     if \<not> py_truthy txns then ((None, yielded), c1)
                     else (case dict_get result ''totalPages'' (JNum 1) of
                             None \<Rightarrow> ((Some (PyError ''AttributeError''), yielded @ [txns]), c1)
                           | Some total_pages \<Rightarrow>
                               (case py_ge page total_pages of
                                  None \<Rightarrow>
                                    ((Some (PyError ''TypeError''), yielded @ [txns]), c1)
                                | Some True \<Rightarrow> ((None, yielded @ [txns]), c1)
                                | Some False \<Rightarrow>
                                    get_all_transactions_loop depth ep api max_pages (page + 1)
                                      (yielded @ [txns]) c1))))
      else ((None, yielded), c))"
  by pat_completeness auto
termination
  by (relation "measure (\<lambda>(depth, ep, api, max_pages, page, yielded, c).
                          nat (max_pages + 1 - page))") auto

declare get_all_transactions_loop.simps [simp del]

definition get_all_payin_transactions ::
  "nat \<Rightarrow> payshack_api \<Rightarrow> int \<Rightarrow> int \<Rightarrow> connection
     \<Rightarrow> (client_error option \<times> json list) \<times> connection" where
  "get_all_payin_transactions depth api start_page max_pages c =
     get_all_transactions_loop depth Payin api max_pages start_page [] c"

definition get_all_payout_transactions ::
  "nat \<Rightarrow> payshack_api \<Rightarrow> int \<Rightarrow> int \<Rightarrow> connection
     \<Rightarrow> (client_error option \<times> json list) \<times> connection" where
  "get_all_payout_transactions depth api start_page max_pages c =
     get_all_transactions_loop depth Payout api max_pages start_page [] c"


section \<open>Data for the worked examples\<close>

text \<open>A row with the fields that matter to a pass, for the worked examples below.\<close>

definition sample_txn :: "uuid \<Rightarrow> string \<Rightarrow> json \<Rightarrow> json \<Rightarrow> decimal \<Rightarrow> string \<Rightarrow> transaction" where
  "sample_txn i src coid oid amt st =
     \<lparr> source = src, source_id = JStr ''op'', reference_id = JNull,
       client_operation_id = coid, order_id = oid, project = JNull, merchant_id = JNull,
       amount = amt, currency = JStr ''INR'', fee = None, amount_usd = None, fee_usd = None,
       exchange_rate = None, status = st, original_status = JNull, user_id = JNull,
       user_email = JNull, user_phone = JNull, user_name = JNull, country = JNull,
       utr = JNull, payment_method = JNull, payment_product = JNull,
       created_at = Some \<lparr> wall = 0, tzoffset = Some 0 \<rparr>, updated_at = None,
       completed_at = None, source_create_cursor = JNull, source_update_cursor = JNull,
       raw_data = JNull, data_hash = ''h'', id' = i,
       ingested_at = \<lparr> wall = 0, tzoffset = Some 0 \<rparr> \<rparr>"



text \<open>A library for the examples: it knows the literals that occur in them, and the text
  to be hashed stands for its digest.\<close>

definition sample_lib :: pylib where
  "sample_lib =
     \<lparr> decimal_of_str = map_of [(''150'', 150), (''15000'', 15000)],
       date_parse = map_of [(''2024-01-15T10:30:00Z'',
                             \<lparr> wall = 1705314600000000, tzoffset = Some 0 \<rparr>)],
       repr_json = (\<lambda>v. if v = JNum 150 then ''150'' else if v = JNum 15000 then ''15000''
                         else ''?''),
       str_decimal = (\<lambda>d. if d = 150 then ''150'' else ''?''),
       isoformat = (\<lambda>t. ''2024-01-15T10:30:00+00:00''),
       sha256_hexdigest = (\<lambda>s. s) \<rparr>"

definition sample_db_env :: db_env where
  "sample_db_env =
     \<lparr> gen_random_uuid = (\<lambda>rows. length rows + 1),
       NOW = \<lparr> wall = 1000, tzoffset = Some 0 \<rparr>,
       utcnow = \<lparr> wall = 1000, tzoffset = Some 0 \<rparr> \<rparr>"

text \<open>A Vima operation as first seen and as seen again after its completion, and the same
  operation with only the nested amount in minor units.\<close>

definition vima_raw :: "string \<Rightarrow> string \<Rightarrow> json" where
  "vima_raw st upd =
     JObj [(''operation_id'', JStr ''op-1''), (''client_operation_id'', JStr ''c-1''),
           (''complete_amount'', JNum 150), (''complete_currency'', JStr ''INR''),
           (''payment_status'', JStr st), (''operation_created_at'', JStr ''2024-01-15T10:30:00Z''),
           (''operation_create_id'', JStr ''cur-1''), (''operation_update_id'', JStr upd)]"


definition payshack_raw :: json where
  "payshack_raw =
     JObj [(''txnId'', JStr ''t-1''), (''orderId'', JStr ''c-1''), (''amount'', JNum 150),
           (''txnStatus'', JStr ''Success''), (''createdAt'', JStr ''2024-01-15T10:30:00Z'')]"

text \<open>The store after the operation was first ingested, and the dicts of its two sightings.\<close>

definition vima_seen_first :: txn_values where
  "vima_seen_first = the (normalize sample_lib (vima_raw ''in_process'' ''u1''))"

definition vima_seen_again :: txn_values where
  "vima_seen_again = the (normalize sample_lib (vima_raw ''success'' ''u2''))"

definition store_after_first :: "transaction list" where
  "store_after_first =
     (case vima_upsert_transactions sample_db_env [] [vima_seen_first] of
        Inr rows \<Rightarrow> rows | Inl _ \<Rightarrow> [])"

definition store_after_second :: "transaction list" where
  "store_after_second =
     (case vima_upsert_transactions sample_db_env store_after_first [vima_seen_again] of
        Inr rows \<Rightarrow> rows | Inl _ \<Rightarrow> [])"

text \<open>The dicts of a PayShack transaction seen as a pay-in and as a pay-out, and the store
  after the first of them was ingested.\<close>

definition payin_seen :: txn_values where
  "payin_seen = the (normalize_payin sample_lib payshack_raw)"

definition payout_seen :: txn_values where
  "payout_seen = the (normalize_payout sample_lib payshack_raw)"

definition payshack_store :: "transaction list" where
  "payshack_store = snd (payshack_upsert_transactions sample_db_env [] [payin_seen])"


text \<open>A Vima server with three operations: after the cursor \<open>b\<close> it keeps answering with
  the operation \<open>c\<close>, whose cursor then no longer advances.\<close>

definition vima_op :: "string \<Rightarrow> json" where
  "vima_op cur = JObj [(''operation_id'', JStr (''op-'' @ cur)), (''operation_create_id'', JStr cur)]"

definition sample_vima_server :: vima_server where
  "sample_vima_server n cursor =
     (if cursor = JNull then HttpResponse 200 (Some (JArr [vima_op ''a'', vima_op ''b'']))
      else if cursor = JStr ''b'' \<or> cursor = JStr ''c'' then HttpResponse 200 (Some (JArr [vima_op ''c'']))
      else HttpResponse 200 (Some (JArr [])))"

text \<open>A PayShack server with two pages per endpoint that rejects the token of every fetch
  among its first \<open>2 * k\<close> requests with a 401, and a client that holds a fresh token.\<close>

definition sample_page :: "int \<Rightarrow> json" where
  "sample_page p =
     JObj [(''success'', JBool True),
           (''data'', JObj [(''transactions'',
                             (if p \<le> 2 then JArr [JObj [(''txnId'', JStr ''t-1'')]] else JArr [])),
                            (''totalPages'', JNum 2)])]"

definition sample_login :: json where
  "sample_login =
     JObj [(''success'', JBool True),
           (''data'', JObj [(''token'', JStr ''jwt''), (''clientId'', JStr ''r-1''),
                            (''refreshToken'', JStr ''rt'')])]"

definition sample_api :: "nat \<Rightarrow> payshack_api" where
  "sample_api k =
     \<lparr> respond = (\<lambda>n req. case req of
                      Login \<Rightarrow> HttpResponse 200 (Some sample_login)
                    | Fetch ep p \<Rightarrow> if n < 2 * k then HttpResponse 401 None
                                    else HttpResponse 200 (Some (sample_page p))),
       clock = (\<lambda>n. 0) \<rparr>"

definition authenticated :: connection where
  "authenticated =
     \<lparr> token = JStr ''jwt'', client_id = JStr ''r-1'', refresh_token = JStr ''rt'',
       token_expires_at = Some (30 * 60 * 1000000), requests = [] \<rparr>"



section \<open>Properties of the comparison\<close>

text \<open>
  Claim C2. For a matched pair (a from Vima, b from PayShack) an amount mismatch is declared
  exactly when the absolute difference of the amounts exceeds the larger of 0.01 and one
  thousandth of the Vima amount, in exact arithmetic: it is then listed among the
  discrepancies and is the result's kind. A pair whose amounts differ by exactly that
  threshold, with equal statuses, is matched; a pair whose difference exceeds the threshold
  by any positive amount, however small, is a discrepancy of kind amount.
\<close>

theorem compare_amount_tolerance:
  "(max (1 / 100) (amount a * (1 / 1000)) < \<bar>amount a - amount b\<bar>
      \<longleftrightarrow> (\<exists>ds. details (compare_transactions rid d a b) = Some ds \<and> ''amount'' \<in> set ds))
   \<and> (max (1 / 100) (amount a * (1 / 1000)) < \<bar>amount a - amount b\<bar>
      \<longleftrightarrow> match_status (compare_transactions rid d a b) = ''discrepancy''
          \<and> discrepancy_type (compare_transactions rid d a b) = Some ''amount'')
   \<and> (\<bar>amount a - amount b\<bar> = max (1 / 100) (amount a * (1 / 1000)) \<and> status a = status b
      \<longrightarrow> match_status (compare_transactions rid d a b) = ''matched'')
   \<and> (\<forall>u. 0 < u \<and> \<bar>amount a - amount b\<bar> = max (1 / 100) (amount a * (1 / 1000)) + u
      \<longrightarrow> match_status (compare_transactions rid d a b) = ''discrepancy''
          \<and> discrepancy_type (compare_transactions rid d a b) = Some ''amount'')"
  unfolding compare_transactions_def Let_def AMOUNT_TOLERANCE_def AMOUNT_TOLERANCE_PERCENT_def
  by (auto split: list.splits if_splits)

text \<open>At 20000 the threshold is 20: 20020 is matched, 20020.0001 is an amount discrepancy.\<close>

theorem compare_amount_tolerance_witness:
  "\<bar>20000 - 20020\<bar> = max (1 / 100) (20000 * (1 / 1000) :: rat)
   \<and> match_status (compare_transactions 7 0
         (sample_txn 1 ''vima'' (JStr ''k'') JNull 20000 ''success'')
         (sample_txn 2 ''payshack'' (JStr ''k'') (JStr ''k'') 20020 ''success'')) = ''matched''
   \<and> \<bar>20000 - 200200001 / 10000\<bar> = max (1 / 100) (20000 * (1 / 1000) :: rat) + 1 / 10000
   \<and> match_status (compare_transactions 7 0
         (sample_txn 1 ''vima'' (JStr ''k'') JNull 20000 ''success'')
         (sample_txn 2 ''payshack'' (JStr ''k'') (JStr ''k'') (200200001 / 10000) ''success''))
       = ''discrepancy''
   \<and> discrepancy_type (compare_transactions 7 0
         (sample_txn 1 ''vima'' (JStr ''k'') JNull 20000 ''success'')
         (sample_txn 2 ''payshack'' (JStr ''k'') (JStr ''k'') (200200001 / 10000) ''success''))
       = Some ''amount''"
  using compare_amount_tolerance [of "sample_txn 1 ''vima'' (JStr ''k'') JNull 20000 ''success''"
          "sample_txn 2 ''payshack'' (JStr ''k'') (JStr ''k'') 20020 ''success''" 7 0]
        compare_amount_tolerance [of "sample_txn 1 ''vima'' (JStr ''k'') JNull 20000 ''success''"
          "sample_txn 2 ''payshack'' (JStr ''k'') (JStr ''k'') (200200001 / 10000) ''success''" 7 0]
  by (simp add: sample_txn_def)

text \<open>
  Claim C3. A matched pair that differs both in amount, beyond the tolerance, and in status
  is a discrepancy whose kind is amount and not status; both differences are recorded in the
  details, amount first.
\<close>

theorem compare_amount_precedes_status:
  assumes "max (1 / 100) (amount a * (1 / 1000)) < \<bar>amount a - amount b\<bar>"
    and "status a \<noteq> status b"
  shows "match_status (compare_transactions rid d a b) = ''discrepancy''
       \<and> discrepancy_type (compare_transactions rid d a b) = Some ''amount''
       \<and> discrepancy_type (compare_transactions rid d a b) \<noteq> Some ''status''
       \<and> details (compare_transactions rid d a b) = Some [''amount'', ''status'']"
  using assms
  unfolding compare_transactions_def Let_def AMOUNT_TOLERANCE_def AMOUNT_TOLERANCE_PERCENT_def
  by simp

theorem compare_amount_precedes_status_witness:
  "max (1 / 100) (500 * (1 / 1000)) < \<bar>500 - (450 :: rat)\<bar>
   \<and> ''success'' \<noteq> ''failed''
   \<and> match_status (compare_transactions 7 0
         (sample_txn 1 ''vima'' (JStr ''k'') JNull 500 ''success'')
         (sample_txn 2 ''payshack'' (JStr ''k'') (JStr ''k'') 450 ''failed'')) = ''discrepancy''
   \<and> discrepancy_type (compare_transactions 7 0
         (sample_txn 1 ''vima'' (JStr ''k'') JNull 500 ''success'')
         (sample_txn 2 ''payshack'' (JStr ''k'') (JStr ''k'') 450 ''failed'')) = Some ''amount''"
  using compare_amount_precedes_status [of "sample_txn 1 ''vima'' (JStr ''k'') JNull 500 ''success''"
          "sample_txn 2 ''payshack'' (JStr ''k'') (JStr ''k'') 450 ''failed''" 7 0]
  by (simp add: sample_txn_def)

section \<open>Properties of the matching loops\<close>

lemma compare_ids [simp]:
  "vima_txn_id (compare_transactions rid d v p) = Some (id' v)"
  "payshack_txn_id (compare_transactions rid d v p) = Some (id' p)"
  by (simp_all add: compare_transactions_def Let_def split: list.splits)

lemma missing_ids [simp]:
  "vima_txn_id (missing_payshack_result rid d v) = Some (id' v)"
  "payshack_txn_id (missing_payshack_result rid d v) = None"
  "vima_txn_id (missing_vima_result rid d p) = None"
  "payshack_txn_id (missing_vima_result rid d p) = Some (id' p)"
  "match_status (missing_vima_result rid d p) = ''missing_vima''"
  by (simp_all add: missing_payshack_result_def missing_vima_result_def)

lemma match_vima_removeAll:
  "\<not> py_truthy (client_operation_id t)
     \<Longrightarrow> match_vima rid d idx (removeAll t vs) st = match_vima rid d idx vs st"
proof (induction vs arbitrary: st)
  case Nil
  then show ?case by simp
next
  case (Cons v vs)
  obtain rs m where st: "st = (rs, m)" by (cases st)
  show ?case
    using Cons.IH [OF Cons.prems] Cons.prems
    by (auto simp: st Let_def split: option.splits)
qed

lemma match_vima_results:
  "match_vima rid d idx vs (rs, m) = (rs', m')
     \<Longrightarrow> r \<in> set rs'
     \<Longrightarrow> r \<in> set rs
        \<or> (\<exists>v\<in>set vs. py_truthy (client_operation_id v) \<and> vima_txn_id r = Some (id' v)
              \<and> (payshack_txn_id r = None
                  \<or> (\<exists>p. idx (client_operation_id v) = Some p \<and> payshack_txn_id r = Some (id' p))))"
proof (induction vs arbitrary: rs m)
  case Nil
  then show ?case by simp
next
  case (Cons v vs)
  show ?case
  proof (cases "py_truthy (client_operation_id v)")
    case False
    with Cons.prems have "match_vima rid d idx vs (rs, m) = (rs', m')" by simp
    from Cons.IH [OF this Cons.prems(2)] show ?thesis by auto
  next
    case True
    show ?thesis
    proof (cases "idx (client_operation_id v)")
      case None
      with True Cons.prems
      have "match_vima rid d idx vs (rs @ [missing_payshack_result rid d v], m) = (rs', m')"
        by simp
      from Cons.IH [OF this Cons.prems(2)] True show ?thesis by auto
    next
      case (Some p)
      with True Cons.prems
      have "match_vima rid d idx vs (rs @ [compare_transactions rid d v p], insert (id' p) m) = (rs', m')"
        by simp
      from Cons.IH [OF this Cons.prems(2)] True Some show ?thesis by auto
    qed
  qed
qed

lemma match_vima_matched:
  "match_vima rid d idx vs (rs, m) = (rs', m')
     \<Longrightarrow> i \<in> m' \<Longrightarrow> i \<in> m \<or> (\<exists>k p. idx k = Some p \<and> id' p = i)"
proof (induction vs arbitrary: rs m)
  case Nil
  then show ?case by simp
next
  case (Cons v vs)
  show ?case
  proof (cases "py_truthy (client_operation_id v)")
    case False
    with Cons.prems have "match_vima rid d idx vs (rs, m) = (rs', m')" by simp
    from Cons.IH [OF this Cons.prems(2)] show ?thesis by auto
  next
    case True
    show ?thesis
    proof (cases "idx (client_operation_id v)")
      case None
      with True Cons.prems
      have "match_vima rid d idx vs (rs @ [missing_payshack_result rid d v], m) = (rs', m')"
        by simp
      from Cons.IH [OF this Cons.prems(2)] show ?thesis by auto
    next
      case (Some p)
      with True Cons.prems
      have "match_vima rid d idx vs (rs @ [compare_transactions rid d v p], insert (id' p) m) = (rs', m')"
        by simp
      from Cons.IH [OF this Cons.prems(2)] Some show ?thesis by auto
    qed
  qed
qed

lemma build_index_range:
  "build_index ps idx k = Some t
     \<Longrightarrow> idx k = Some t
        \<or> (t \<in> set ps \<and> (py_truthy (order_id t) \<or> py_truthy (client_operation_id t)))"
proof (induction ps arbitrary: idx)
  case Nil
  then show ?case by simp
next
  case (Cons a ps)
  let ?idx = "if py_truthy (order_id a) then idx(order_id a \<mapsto> a)
              else if py_truthy (client_operation_id a) then idx(client_operation_id a \<mapsto> a)
              else idx"
  from Cons.prems have "build_index ps ?idx k = Some t" by simp
  from Cons.IH [OF this]
  consider "?idx k = Some t"
    | "t \<in> set ps \<and> (py_truthy (order_id t) \<or> py_truthy (client_operation_id t))"
    by blast
  then show ?case
  proof cases
    case 1
    then have "idx k = Some t
        \<or> (t = a \<and> (py_truthy (order_id a) \<or> py_truthy (client_operation_id a)))"
      by (auto split: if_splits)
    then show ?thesis by auto
  next
    case 2
    then show ?thesis by simp
  qed
qed

lemma unmatched_payshack_eq:
  "unmatched_payshack rid d M ps rs
     = rs @ map (missing_vima_result rid d) (filter (\<lambda>t. id' t \<notin> M) ps)"
  by (induction ps arbitrary: rs) auto

lemma filter_id_distinct:
  "distinct (map id' ps) \<Longrightarrow> p \<in> set ps \<Longrightarrow> filter (\<lambda>t. id' t = id' p) ps = [p]"
proof (induction ps)
  case Nil
  then show ?case by simp
next
  case (Cons q ps)
  show ?case
  proof (cases "q = p")
    case True
    with Cons.prems have "id' p \<notin> id' ` set ps" by simp
    then have "\<forall>t\<in>set ps. id' t \<noteq> id' p" by (metis imageI)
    then have "filter (\<lambda>t. id' t = id' p) ps = []" by (simp add: filter_empty_conv)
    with True show ?thesis by simp
  next
    case False
    with Cons.prems have "p \<in> set ps" "id' q \<noteq> id' p" by auto
    with Cons show ?thesis by simp
  qed
qed

text \<open>
  Claim C7. A Vima row loaded for the date whose \<^verbatim>\<open>client_operation_id\<close> is null gets no
  result: no result of the pass refers to it, and the results are those of the same pass
  without the row, so that the counts of matched, discrepancy and missing_payshack results
  (and of missing_vima results) do not depend on it. The loaded rows have distinct primary
  keys.
\<close>

theorem null_key_vima_excluded:
  assumes "t \<in> set vima_txns"
    and "client_operation_id t = JNull"
    and "distinct (map id' vima_txns)"
  shows "(\<forall>r\<in>set (match_transactions rid d vima_txns payshack_txns). vima_txn_id r \<noteq> Some (id' t))
       \<and> match_transactions rid d vima_txns payshack_txns
           = match_transactions rid d (removeAll t vima_txns) payshack_txns
       \<and> count_status ''matched'' (match_transactions rid d vima_txns payshack_txns)
           = count_status ''matched'' (match_transactions rid d (removeAll t vima_txns) payshack_txns)
       \<and> count_status ''discrepancy'' (match_transactions rid d vima_txns payshack_txns)
           = count_status ''discrepancy''
               (match_transactions rid d (removeAll t vima_txns) payshack_txns)
       \<and> count_status ''missing_payshack'' (match_transactions rid d vima_txns payshack_txns)
           = count_status ''missing_payshack''
               (match_transactions rid d (removeAll t vima_txns) payshack_txns)"
proof -
  have falsy: "\<not> py_truthy (client_operation_id t)" using assms(2) by simp
  have same: "match_transactions rid d vima_txns payshack_txns
           = match_transactions rid d (removeAll t vima_txns) payshack_txns"
    by (simp add: match_transactions_def match_vima_removeAll [OF falsy])
  obtain rs m where mv:
    "match_vima rid d (build_index payshack_txns Map.empty) vima_txns ([], {}) = (rs, m)"
    by (cases "match_vima rid d (build_index payshack_txns Map.empty) vima_txns ([], {})")
  have none: "\<forall>r\<in>set (match_transactions rid d vima_txns payshack_txns).
      vima_txn_id r \<noteq> Some (id' t)"
  proof
    fix r assume "r \<in> set (match_transactions rid d vima_txns payshack_txns)"
    then have "r \<in> set rs \<or> vima_txn_id r = None"
      by (auto simp: match_transactions_def mv unmatched_payshack_eq)
    then show "vima_txn_id r \<noteq> Some (id' t)"
    proof
      assume "r \<in> set rs"
      from match_vima_results [OF mv this]
      obtain v where v: "v \<in> set vima_txns" "py_truthy (client_operation_id v)"
        "vima_txn_id r = Some (id' v)" by auto
      have "id' v \<noteq> id' t"
      proof
        assume "id' v = id' t"
        with assms(1,3) v(1) have "v = t" by (meson distinct_map inj_onD)
        with v(2) falsy show False by simp
      qed
      with v(3) show ?thesis by simp
    qed simp
  qed
  have counts: "count_status s (match_transactions rid d vima_txns payshack_txns)
      = count_status s (match_transactions rid d (removeAll t vima_txns) payshack_txns)" for s
    by (simp only: same [symmetric])
  from none same counts show ?thesis by blast
qed

theorem null_key_vima_excluded_witness:
  "sample_txn 1 ''vima'' JNull JNull 100 ''success''
      \<in> set [sample_txn 1 ''vima'' JNull JNull 100 ''success'',
              sample_txn 2 ''vima'' (JStr ''k'') JNull 100 ''success'']
   \<and> client_operation_id (sample_txn 1 ''vima'' JNull JNull 100 ''success'') = JNull
   \<and> distinct (map id' [sample_txn 1 ''vima'' JNull JNull 100 ''success'',
              sample_txn 2 ''vima'' (JStr ''k'') JNull 100 ''success''])
   \<and> map vima_txn_id (match_transactions 7 0
         [sample_txn 1 ''vima'' JNull JNull 100 ''success'',
          sample_txn 2 ''vima'' (JStr ''k'') JNull 100 ''success'']
         [sample_txn 3 ''payshack'' (JStr ''k'') (JStr ''k'') 100 ''success'']) = [Some 2]"
  using null_key_vima_excluded [of "sample_txn 1 ''vima'' JNull JNull 100 ''success''"
     "[sample_txn 1 ''vima'' JNull JNull 100 ''success'',
       sample_txn 2 ''vima'' (JStr ''k'') JNull 100 ''success'']" 7 0
     "[sample_txn 3 ''payshack'' (JStr ''k'') (JStr ''k'') 100 ''success'']"]
  by (simp add: sample_txn_def match_transactions_def compare_transactions_def Let_def
      AMOUNT_TOLERANCE_def AMOUNT_TOLERANCE_PERCENT_def)

text \<open>
  Claim C10. A PayShack row loaded for the date whose \<^verbatim>\<open>order_id\<close> and
  \<^verbatim>\<open>client_operation_id\<close> are both null is under no key of the index, and the pass has
  exactly one result that refers to it, the missing_vima result built from it. The loaded
  rows have distinct primary keys.
\<close>

theorem keyless_payshack_missing_vima:
  assumes "p \<in> set payshack_txns"
    and "order_id p = JNull" and "client_operation_id p = JNull"
    and "distinct (map id' payshack_txns)"
  shows "filter (\<lambda>r. payshack_txn_id r = Some (id' p)) (match_transactions rid d vima_txns payshack_txns)
           = [missing_vima_result rid d p]
       \<and> match_status (missing_vima_result rid d p) = ''missing_vima''
       \<and> (\<forall>k. build_index payshack_txns Map.empty k \<noteq> Some p)"
proof -
  let ?idx = "build_index payshack_txns Map.empty"
  obtain rs m where mv: "match_vima rid d ?idx vima_txns ([], {}) = (rs, m)"
    by (cases "match_vima rid d ?idx vima_txns ([], {})")
  have indexed: "id' q \<noteq> id' p" if "?idx k = Some q" for k q
  proof
    assume eq: "id' q = id' p"
    from build_index_range [OF that]
    have q: "q \<in> set payshack_txns" "py_truthy (order_id q) \<or> py_truthy (client_operation_id q)"
      by auto
    from eq q(1) assms(1,4) have "q = p" by (meson distinct_map inj_onD)
    with q(2) assms(2,3) show False by simp
  qed
  have notin: "id' p \<notin> m"
  proof
    assume "id' p \<in> m"
    from match_vima_matched [OF mv this] obtain k q where "?idx k = Some q" "id' q = id' p"
      by auto
    with indexed show False by blast
  qed
  have no_rs: "filter (\<lambda>r. payshack_txn_id r = Some (id' p)) rs = []"
  proof -
    have "payshack_txn_id r \<noteq> Some (id' p)" if "r \<in> set rs" for r
      using match_vima_results [OF mv that] indexed by auto
    then show ?thesis by (simp add: filter_empty_conv)
  qed
  have "filter (\<lambda>r. payshack_txn_id r = Some (id' p))
          (map (missing_vima_result rid d) (filter (\<lambda>t. id' t \<notin> m) payshack_txns))
        = map (missing_vima_result rid d)
            (filter (\<lambda>t. id' t \<notin> m) (filter (\<lambda>t. id' t = id' p) payshack_txns))"
    by (simp add: filter_map comp_def conj_commute)
  also have "\<dots> = [missing_vima_result rid d p]"
    using filter_id_distinct [OF assms(4,1)] notin by simp
  finally have tail: "filter (\<lambda>r. payshack_txn_id r = Some (id' p))
          (map (missing_vima_result rid d) (filter (\<lambda>t. id' t \<notin> m) payshack_txns))
        = [missing_vima_result rid d p]" .
  have "filter (\<lambda>r. payshack_txn_id r = Some (id' p)) (match_transactions rid d vima_txns payshack_txns)
           = [missing_vima_result rid d p]"
    by (simp add: match_transactions_def mv unmatched_payshack_eq no_rs tail)
  moreover have "\<forall>k. ?idx k \<noteq> Some p" using indexed by blast
  ultimately show ?thesis by simp
qed

theorem keyless_payshack_missing_vima_witness:
  "sample_txn 4 ''payshack'' JNull JNull 100 ''success''
      \<in> set [sample_txn 3 ''payshack'' (JStr ''k'') (JStr ''k'') 100 ''success'',
              sample_txn 4 ''payshack'' JNull JNull 100 ''success'']
   \<and> order_id (sample_txn 4 ''payshack'' JNull JNull 100 ''success'') = JNull
   \<and> client_operation_id (sample_txn 4 ''payshack'' JNull JNull 100 ''success'') = JNull
   \<and> distinct (map id' [sample_txn 3 ''payshack'' (JStr ''k'') (JStr ''k'') 100 ''success'',
              sample_txn 4 ''payshack'' JNull JNull 100 ''success''])
   \<and> map (\<lambda>r. (vima_txn_id r, payshack_txn_id r, match_status r)) (match_transactions 7 0
         [sample_txn 1 ''vima'' JNull JNull 100 ''success'',
          sample_txn 2 ''vima'' (JStr ''k'') JNull 100 ''success'']
         [sample_txn 3 ''payshack'' (JStr ''k'') (JStr ''k'') 100 ''success'',
          sample_txn 4 ''payshack'' JNull JNull 100 ''success''])
       = [(Some 2, Some 3, ''matched''), (None, Some 4, ''missing_vima'')]"
  using keyless_payshack_missing_vima [of "sample_txn 4 ''payshack'' JNull JNull 100 ''success''"
     "[sample_txn 3 ''payshack'' (JStr ''k'') (JStr ''k'') 100 ''success'',
       sample_txn 4 ''payshack'' JNull JNull 100 ''success'']" 7 0
     "[sample_txn 1 ''vima'' JNull JNull 100 ''success'',
       sample_txn 2 ''vima'' (JStr ''k'') JNull 100 ''success'']"]
  by (simp add: sample_txn_def match_transactions_def compare_transactions_def Let_def
      missing_vima_result_def AMOUNT_TOLERANCE_def AMOUNT_TOLERANCE_PERCENT_def)

section \<open>Properties of a whole pass\<close>






section \<open>Properties of the normalizers\<close>

lemma bindE:
  assumes "(m \<bind> f) = Some y"
  obtains x where "m = Some x" and "f x = Some y"
  using assms by (auto simp: bind_eq_Some_conv)




lemma normalize_payin_keys:
  assumes "normalize_payin lib raw = Some n"
  shows "dict_get raw ''orderId'' JNull = Some (order_id n) \<and> client_operation_id n = order_id n
         \<and> source n = ''payshack''"
  using assms unfolding normalize_payin_def
  apply (elim bindE)
  apply (drule sym [of "Some _"])
  apply simp
  done

lemma normalize_payout_keys:
  assumes "normalize_payout lib raw = Some n"
  shows "dict_get raw ''orderId'' JNull = Some (order_id n) \<and> client_operation_id n = order_id n
         \<and> source n = ''payshack''"
  using assms unfolding normalize_payout_def
  apply (elim bindE)
  apply (drule sym [of "Some _"])
  apply simp
  done

lemma build_index_keys:
  assumes "\<forall>t\<in>set ps. client_operation_id t = order_id t"
    and "build_index ps idx k = Some t"
  shows "idx k = Some t \<or> (k = order_id t \<and> py_truthy (order_id t))"
  using assms
proof (induction ps arbitrary: idx)
  case Nil
  then show ?case by simp
next
  case (Cons a ps)
  let ?idx = "if py_truthy (order_id a) then idx(order_id a \<mapsto> a)
              else if py_truthy (client_operation_id a) then idx(client_operation_id a \<mapsto> a)
              else idx"
  from Cons.prems have eq: "client_operation_id a = order_id a"
    and rest: "\<forall>t\<in>set ps. client_operation_id t = order_id t"
    and bi: "build_index ps ?idx k = Some t"
    by simp_all
  from Cons.IH [OF rest bi]
  consider "?idx k = Some t" | "k = order_id t \<and> py_truthy (order_id t)" by blast
  then show ?case
  proof cases
    case 1
    with eq show ?thesis by (auto split: if_splits)
  next
    case 2
    then show ?thesis by simp
  qed
qed

lemma payshack_on_conflict_frame [simp]:
  "source (payshack_on_conflict ts r n) = source r"
  "source_id (payshack_on_conflict ts r n) = source_id r"
  "reference_id (payshack_on_conflict ts r n) = reference_id r"
  "client_operation_id (payshack_on_conflict ts r n) = client_operation_id r"
  "order_id (payshack_on_conflict ts r n) = order_id r"
  "amount (payshack_on_conflict ts r n) = amount r"
  "currency (payshack_on_conflict ts r n) = currency r"
  "created_at (payshack_on_conflict ts r n) = created_at r"
  "data_hash (payshack_on_conflict ts r n) = data_hash r"
  "id' (payshack_on_conflict ts r n) = id' r"
  by (simp_all add: payshack_on_conflict_def)

lemma vima_on_conflict_frame [simp]:
  "source (vima_on_conflict r n) = source r"
  "source_id (vima_on_conflict r n) = source_id r"
  "reference_id (vima_on_conflict r n) = reference_id r"
  "client_operation_id (vima_on_conflict r n) = client_operation_id r"
  "order_id (vima_on_conflict r n) = order_id r"
  "amount (vima_on_conflict r n) = amount r"
  "currency (vima_on_conflict r n) = currency r"
  "created_at (vima_on_conflict r n) = created_at r"
  "data_hash (vima_on_conflict r n) = data_hash r"
  "id' (vima_on_conflict r n) = id' r"
  by (simp_all add: vima_on_conflict_def)

lemma insert_row_frame [simp]:
  "source (insert_row env rows n) = source n"
  "source_id (insert_row env rows n) = source_id n"
  "reference_id (insert_row env rows n) = reference_id n"
  "client_operation_id (insert_row env rows n) = client_operation_id n"
  "order_id (insert_row env rows n) = order_id n"
  "amount (insert_row env rows n) = amount n"
  "currency (insert_row env rows n) = currency n"
  "created_at (insert_row env rows n) = created_at n"
  "data_hash (insert_row env rows n) = data_hash n"
  by (simp_all add: insert_row_def)

lemma upsert_row_payshack_keys:
  assumes "client_operation_id n = order_id n"
    and "\<forall>t\<in>set rows. source t = ''payshack'' \<longrightarrow> client_operation_id t = order_id t"
  shows "\<forall>t\<in>set (upsert_row (payshack_on_conflict ts) env rows n).
           source t = ''payshack'' \<longrightarrow> client_operation_id t = order_id t"
proof (cases "\<exists>r\<in>set rows. data_hash r = data_hash n")
  case True
  then have "upsert_row (payshack_on_conflict ts) env rows n
      = map (\<lambda>r. if data_hash r = data_hash n then payshack_on_conflict ts r n else r) rows"
    by (simp add: upsert_row_def)
  with assms(2) show ?thesis by auto
next
  case False
  then have "upsert_row (payshack_on_conflict ts) env rows n = rows @ [insert_row env rows n]"
    by (simp add: upsert_row_def)
  with assms show ?thesis by auto
qed

text \<open>
  Claim C9. A record from \<^verbatim>\<open>normalize_payin\<close> or \<^verbatim>\<open>normalize_payout\<close> has
  \<^verbatim>\<open>client_operation_id\<close> equal to \<^verbatim>\<open>order_id\<close>, both the raw \<^verbatim>\<open>orderId\<close>; the PayShack
  upsert keeps the two columns equal on the PayShack rows of the table; and over rows with
  equal keys every entry of the reconciliation index stands under its \<^verbatim>\<open>order_id\<close>, so
  that the fallback to \<^verbatim>\<open>client_operation_id\<close> supplies no other key.
\<close>

theorem payshack_keys_equal:
  "(normalize_payin lib raw = Some n
      \<longrightarrow> client_operation_id n = order_id n \<and> dict_get raw ''orderId'' JNull = Some (order_id n))
   \<and> (normalize_payout lib raw = Some n
      \<longrightarrow> client_operation_id n = order_id n \<and> dict_get raw ''orderId'' JNull = Some (order_id n))
   \<and> ((normalize_payin lib raw = Some n \<or> normalize_payout lib raw = Some n)
       \<and> (\<forall>t\<in>set rows. source t = ''payshack'' \<longrightarrow> client_operation_id t = order_id t)
      \<longrightarrow> (\<forall>t\<in>set (snd (payshack_upsert_transactions env rows [n])).
             source t = ''payshack'' \<longrightarrow> client_operation_id t = order_id t))
   \<and> ((\<forall>t\<in>set payshack_txns. client_operation_id t = order_id t)
      \<longrightarrow> (\<forall>k t. build_index payshack_txns Map.empty k = Some t
                   \<longrightarrow> k = order_id t \<and> py_truthy (order_id t)))"
proof (intro conjI impI allI)
  assume "normalize_payin lib raw = Some n"
  from normalize_payin_keys [OF this]
  show "client_operation_id n = order_id n" "dict_get raw ''orderId'' JNull = Some (order_id n)"
    by simp_all
next
  assume "normalize_payout lib raw = Some n"
  from normalize_payout_keys [OF this]
  show "client_operation_id n = order_id n" "dict_get raw ''orderId'' JNull = Some (order_id n)"
    by simp_all
next
  assume a: "(normalize_payin lib raw = Some n \<or> normalize_payout lib raw = Some n)
       \<and> (\<forall>t\<in>set rows. source t = ''payshack'' \<longrightarrow> client_operation_id t = order_id t)"
  then have "client_operation_id n = order_id n"
    using normalize_payin_keys normalize_payout_keys by blast
  from upsert_row_payshack_keys [OF this, of rows "utcnow env" env] a
  show "\<forall>t\<in>set (snd (payshack_upsert_transactions env rows [n])).
             source t = ''payshack'' \<longrightarrow> client_operation_id t = order_id t"
    by (simp add: payshack_upsert_transactions_def)
next
  fix k t
  assume "\<forall>t\<in>set payshack_txns. client_operation_id t = order_id t"
    and "build_index payshack_txns Map.empty k = Some t"
  from build_index_keys [OF this]
  show "k = order_id t" "py_truthy (order_id t)" by simp_all
qed

lemma payin_seen: "normalize_payin sample_lib payshack_raw = Some payin_seen"
proof -
  have "normalize_payin sample_lib payshack_raw \<noteq> None" by code_simp
  then show ?thesis by (auto simp: payin_seen_def)
qed

lemma payout_seen: "normalize_payout sample_lib payshack_raw = Some payout_seen"
proof -
  have "normalize_payout sample_lib payshack_raw \<noteq> None" by code_simp
  then show ?thesis by (auto simp: payout_seen_def)
qed

theorem payshack_keys_equal_witness:
  "normalize_payin sample_lib payshack_raw = Some payin_seen
   \<and> client_operation_id payin_seen = order_id payin_seen
   \<and> dict_get payshack_raw ''orderId'' JNull = Some (JStr ''c-1'')
   \<and> order_id payin_seen = JStr ''c-1''
   \<and> normalize_payout sample_lib payshack_raw = Some payout_seen
   \<and> client_operation_id payout_seen = order_id payout_seen
   \<and> map source payshack_store = [''payshack'']
   \<and> map client_operation_id payshack_store = map order_id payshack_store
   \<and> map client_operation_id (snd (payshack_upsert_transactions sample_db_env payshack_store [payout_seen]))
       = map order_id (snd (payshack_upsert_transactions sample_db_env payshack_store [payout_seen]))
   \<and> client_operation_id (sample_txn 3 ''payshack'' (JStr ''k'') (JStr ''k'') 100 ''success'')
       = order_id (sample_txn 3 ''payshack'' (JStr ''k'') (JStr ''k'') 100 ''success'')
   \<and> build_index [sample_txn 3 ''payshack'' (JStr ''k'') (JStr ''k'') 100 ''success''] Map.empty
        (JStr ''k'') = Some (sample_txn 3 ''payshack'' (JStr ''k'') (JStr ''k'') 100 ''success'')
   \<and> JStr ''k'' = order_id (sample_txn 3 ''payshack'' (JStr ''k'') (JStr ''k'') 100 ''success'')"
proof -
  note a = payshack_keys_equal [of sample_lib payshack_raw payin_seen "[]" sample_db_env "[]"]
  note b = payshack_keys_equal [of sample_lib payshack_raw payout_seen payshack_store sample_db_env
      "[sample_txn 3 ''payshack'' (JStr ''k'') (JStr ''k'') 100 ''success'']"]
  have raw: "dict_get payshack_raw ''orderId'' JNull = Some (JStr ''c-1'')"
    by (simp add: payshack_raw_def)
  have src: "map source payshack_store = [''payshack'']" by code_simp
  have st: "map client_operation_id payshack_store = map order_id payshack_store" by code_simp
  have st2: "map client_operation_id (snd (payshack_upsert_transactions sample_db_env payshack_store [payout_seen]))
       = map order_id (snd (payshack_upsert_transactions sample_db_env payshack_store [payout_seen]))"
    by code_simp
  have k: "client_operation_id (sample_txn 3 ''payshack'' (JStr ''k'') (JStr ''k'') 100 ''success'')
       = order_id (sample_txn 3 ''payshack'' (JStr ''k'') (JStr ''k'') 100 ''success'')"
    "build_index [sample_txn 3 ''payshack'' (JStr ''k'') (JStr ''k'') 100 ''success''] Map.empty
        (JStr ''k'') = Some (sample_txn 3 ''payshack'' (JStr ''k'') (JStr ''k'') 100 ''success'')"
    by (simp_all add: sample_txn_def)
  note a1 = a [THEN conjunct1, THEN mp, OF payin_seen]
  note b1 = b [THEN conjunct2, THEN conjunct1, THEN mp, OF payout_seen]
  have inv: "\<forall>t\<in>set payshack_store. source t = ''payshack'' \<longrightarrow> client_operation_id t = order_id t"
    by code_simp
  note b2 = b [THEN conjunct2, THEN conjunct2, THEN conjunct1, THEN mp,
      OF conjI [OF disjI2 [OF payout_seen] inv]]
  have "\<forall>t\<in>set [sample_txn 3 ''payshack'' (JStr ''k'') (JStr ''k'') 100 ''success''].
          client_operation_id t = order_id t"
    using k(1) by simp
  note b3 = b [THEN conjunct2, THEN conjunct2, THEN conjunct2, THEN mp, OF this,
      THEN spec, THEN spec, THEN mp, OF k(2), THEN conjunct1]
  have oid: "order_id payin_seen = JStr ''c-1''"
    using a1 raw by simp
  show ?thesis
    by (intro conjI)
      (rule payin_seen a1 [THEN conjunct1] raw oid payout_seen b1 [THEN conjunct1] src st st2 k b3)+
qed

section \<open>Properties of the upsert\<close>

lemma upsert_row_existing:
  assumes "r \<in> set rows" and "data_hash r = data_hash txn" and "distinct (map data_hash rows)"
  shows "upsert_row on_conflict env rows txn = map (\<lambda>x. if x = r then on_conflict r txn else x) rows"
proof -
  have "(data_hash x = data_hash txn) = (x = r)" if "x \<in> set rows" for x
    using that assms by (metis distinct_map inj_onD)
  then have "map (\<lambda>x. if data_hash x = data_hash txn then on_conflict x txn else x) rows
      = map (\<lambda>x. if x = r then on_conflict r txn else x) rows"
    by (intro map_cong) auto
  with assms(1,2) show ?thesis
    by (auto simp: upsert_row_def)
qed

lemma upsert_row_frame:
  assumes "\<And>r. identity_columns (on_conflict r txn) = identity_columns r"
  shows "length rows \<le> length (upsert_row on_conflict env rows txn)
       \<and> map identity_columns (take (length rows) (upsert_row on_conflict env rows txn))
           = map identity_columns rows"
  using assms by (auto simp: upsert_row_def comp_def intro!: map_cong)

lemma foldl_upsert_frame:
  assumes "\<And>r txn. identity_columns (on_conflict r txn) = identity_columns r"
  shows "length rows \<le> length (foldl (upsert_row on_conflict env) rows txns)
       \<and> map identity_columns (take (length rows) (foldl (upsert_row on_conflict env) rows txns))
           = map identity_columns rows"
proof (induction txns arbitrary: rows)
  case Nil
  then show ?case by simp
next
  case (Cons txn txns)
  let ?rows1 = "upsert_row on_conflict env rows txn"
  let ?rows2 = "foldl (upsert_row on_conflict env) ?rows1 txns"
  from upsert_row_frame [of on_conflict txn rows env] assms
  have s1: "length rows \<le> length ?rows1"
    "map identity_columns (take (length rows) ?rows1) = map identity_columns rows"
    by simp_all
  from Cons.IH [of ?rows1]
  have s2: "length ?rows1 \<le> length ?rows2"
    "map identity_columns (take (length ?rows1) ?rows2) = map identity_columns ?rows1"
    by simp_all
  have "take (length rows) ?rows2 = take (length rows) (take (length ?rows1) ?rows2)"
    using s1(1) by (simp add: min_def)
  then have "map identity_columns (take (length rows) ?rows2)
      = take (length rows) (map identity_columns (take (length ?rows1) ?rows2))"
    by (simp add: take_map)
  also have "\<dots> = map identity_columns (take (length rows) ?rows1)"
    by (simp add: s2(2) take_map)
  also have "\<dots> = map identity_columns rows" by (rule s1(2))
  finally show ?case using s1(1) s2(1) by simp
qed

text \<open>
  Claim C1, as amended. An upsert of one record whose \<^verbatim>\<open>data_hash\<close> is already in the
  table adds no row and changes the row with that hash only: the Vima service overwrites
  its \<^verbatim>\<open>status\<close>, \<^verbatim>\<open>original_status\<close>, \<^verbatim>\<open>updated_at\<close>, \<^verbatim>\<open>completed_at\<close>,
  \<^verbatim>\<open>source_update_cursor\<close> and \<^verbatim>\<open>raw_data\<close>; the PayShack service overwrites its
  \<^verbatim>\<open>status\<close>, \<^verbatim>\<open>original_status\<close>, \<^verbatim>\<open>updated_at\<close>, \<^verbatim>\<open>completed_at\<close>, \<^verbatim>\<open>utr\<close>,
  \<^verbatim>\<open>amount_usd\<close>, \<^verbatim>\<open>fee_usd\<close>, \<^verbatim>\<open>exchange_rate\<close>, \<^verbatim>\<open>raw_data\<close> and \<^verbatim>\<open>ingested_at\<close>. Every
  other column keeps its value. For a batch of any size, every row that was in the table
  is still there, in its place, with its primary key, \<^verbatim>\<open>data_hash\<close>, source, source-native
  id, amount, currency, creation time and business keys unchanged.
\<close>

theorem upsert_existing_frame:
  "(r \<in> set rows \<and> data_hash r = data_hash txn \<and> distinct (map data_hash rows)
      \<longrightarrow> vima_upsert_transactions env rows [txn]
            = Inr (map (\<lambda>x. if x = r
                            then r\<lparr> status := status txn,
                                    original_status := original_status txn,
                                    updated_at := updated_at txn,
                                    completed_at := completed_at txn,
                                    source_update_cursor := source_update_cursor txn,
                                    raw_data := raw_data txn \<rparr>
                            else x) rows)
        \<and> snd (payshack_upsert_transactions env rows [txn])
            = map (\<lambda>x. if x = r
                        then r\<lparr> status := status txn,
                                original_status := original_status txn,
                                updated_at := updated_at txn,
                                completed_at := completed_at txn,
                                utr := utr txn,
                                amount_usd := amount_usd txn,
                                fee_usd := fee_usd txn,
                                exchange_rate := exchange_rate txn,
                                raw_data := raw_data txn,
                                ingested_at := utcnow env \<rparr>
                        else x) rows)
   \<and> (vima_upsert_transactions env rows txns = Inr rows'
      \<longrightarrow> length rows \<le> length rows'
        \<and> map identity_columns (take (length rows) rows') = map identity_columns rows)
   \<and> (snd (payshack_upsert_transactions env rows txns) = rows'
      \<longrightarrow> length rows \<le> length rows'
        \<and> map identity_columns (take (length rows) rows') = map identity_columns rows)"
proof (intro conjI impI)
  assume a: "r \<in> set rows \<and> data_hash r = data_hash txn \<and> distinct (map data_hash rows)"
  then have ex: "r \<in> set rows" "data_hash r = data_hash txn" "distinct (map data_hash rows)"
    by simp_all
  show "vima_upsert_transactions env rows [txn]
            = Inr (map (\<lambda>x. if x = r
                            then r\<lparr> status := status txn,
                                    original_status := original_status txn,
                                    updated_at := updated_at txn,
                                    completed_at := completed_at txn,
                                    source_update_cursor := source_update_cursor txn,
                                    raw_data := raw_data txn \<rparr>
                            else x) rows)"
    by (simp add: vima_upsert_transactions_def upsert_row_existing [OF ex] vima_on_conflict_def)
  show "snd (payshack_upsert_transactions env rows [txn])
            = map (\<lambda>x. if x = r
                        then r\<lparr> status := status txn,
                                original_status := original_status txn,
                                updated_at := updated_at txn,
                                completed_at := completed_at txn,
                                utr := utr txn,
                                amount_usd := amount_usd txn,
                                fee_usd := fee_usd txn,
                                exchange_rate := exchange_rate txn,
                                raw_data := raw_data txn,
                                ingested_at := utcnow env \<rparr>
                        else x) rows"
    by (simp add: payshack_upsert_transactions_def upsert_row_existing [OF ex]
        payshack_on_conflict_def)
next
  assume v: "vima_upsert_transactions env rows txns = Inr rows'"
  have fr: "identity_columns (vima_on_conflict r t) = identity_columns r" for r t
    by (simp add: identity_columns_def)
  from v have "rows' = foldl (upsert_row vima_on_conflict env) rows txns"
    by (auto simp: vima_upsert_transactions_def split: if_splits)
  with foldl_upsert_frame [of vima_on_conflict rows env txns] fr
  show "length rows \<le> length rows'"
    "map identity_columns (take (length rows) rows') = map identity_columns rows"
    by simp_all
next
  assume p: "snd (payshack_upsert_transactions env rows txns) = rows'"
  have fr: "identity_columns (payshack_on_conflict (utcnow env) r t) = identity_columns r" for r t
    by (simp add: identity_columns_def)
  from p have "rows' = foldl (upsert_row (payshack_on_conflict (utcnow env)) env) rows txns"
    by (auto simp: payshack_upsert_transactions_def split: if_splits)
  with foldl_upsert_frame [of "payshack_on_conflict (utcnow env)" rows env txns] fr
  show "length rows \<le> length rows'"
    "map identity_columns (take (length rows) rows') = map identity_columns rows"
    by simp_all
qed

theorem upsert_existing_frame_witness:
  "hd store_after_first \<in> set store_after_first
   \<and> data_hash (hd store_after_first) = data_hash vima_seen_again
   \<and> distinct (map data_hash store_after_first)
   \<and> vima_upsert_transactions sample_db_env store_after_first [vima_seen_again]
       = Inr (map (\<lambda>x. if x = hd store_after_first
                       then (hd store_after_first)
                              \<lparr> status := status vima_seen_again,
                                original_status := original_status vima_seen_again,
                                updated_at := updated_at vima_seen_again,
                                completed_at := completed_at vima_seen_again,
                                source_update_cursor := source_update_cursor vima_seen_again,
                                raw_data := raw_data vima_seen_again \<rparr>
                       else x) store_after_first)
   \<and> vima_upsert_transactions sample_db_env store_after_first [vima_seen_again]
       = Inr store_after_second
   \<and> length store_after_first \<le> length store_after_second
   \<and> map identity_columns (take (length store_after_first) store_after_second)
       = map identity_columns store_after_first
   \<and> snd (payshack_upsert_transactions sample_db_env payshack_store [payout_seen])
       = snd (payshack_upsert_transactions sample_db_env payshack_store [payout_seen])
   \<and> map identity_columns (take (length payshack_store)
          (snd (payshack_upsert_transactions sample_db_env payshack_store [payout_seen])))
       = map identity_columns payshack_store"
proof -
  have h: "hd store_after_first \<in> set store_after_first
      \<and> data_hash (hd store_after_first) = data_hash vima_seen_again
      \<and> distinct (map data_hash store_after_first)"
    by code_simp
  have s: "vima_upsert_transactions sample_db_env store_after_first [vima_seen_again]
       = Inr store_after_second"
    by (simp add: store_after_second_def vima_upsert_transactions_def)
  note t = upsert_existing_frame [of "hd store_after_first" store_after_first vima_seen_again
      sample_db_env "[vima_seen_again]" store_after_second]
  note u = upsert_existing_frame [of "hd store_after_first" payshack_store vima_seen_again
      sample_db_env "[payout_seen]"
      "snd (payshack_upsert_transactions sample_db_env payshack_store [payout_seen])"]
  note c1 = t [THEN conjunct1, THEN mp, OF h, THEN conjunct1]
  note c2 = t [THEN conjunct2, THEN conjunct1, THEN mp, OF s]
  note c3 = u [THEN conjunct2, THEN conjunct2, THEN mp, OF refl, THEN conjunct2]
  show ?thesis
    by (intro conjI)
      (rule h [THEN conjunct1] h [THEN conjunct2, THEN conjunct1]
        h [THEN conjunct2, THEN conjunct2] c1 s c2 [THEN conjunct1] c2 [THEN conjunct2]
        refl c3)+
qed

text \<open>
  The claim as first stated fails on the Vima service: when an operation is seen again, the
  stored \<^verbatim>\<open>source_update_cursor\<close>, which is not among the fields the claim lists, is
  overwritten, and the USD columns, which the claim lists, are not written.
\<close>

lemma seen_first: "normalize sample_lib (vima_raw ''in_process'' ''u1'') = Some vima_seen_first"
proof -
  have "normalize sample_lib (vima_raw ''in_process'' ''u1'') \<noteq> None" by code_simp
  then show ?thesis by (auto simp: vima_seen_first_def)
qed

lemma seen_again: "normalize sample_lib (vima_raw ''success'' ''u2'') = Some vima_seen_again"
proof -
  have "normalize sample_lib (vima_raw ''success'' ''u2'') \<noteq> None" by code_simp
  then show ?thesis by (auto simp: vima_seen_again_def)
qed

theorem upsert_overwrites_cursor_counterexample:
  "normalize sample_lib (vima_raw ''in_process'' ''u1'') = Some vima_seen_first
   \<and> normalize sample_lib (vima_raw ''success'' ''u2'') = Some vima_seen_again
   \<and> vima_upsert_transactions sample_db_env [] [vima_seen_first] = Inr store_after_first
   \<and> map data_hash store_after_first = [data_hash vima_seen_again]
   \<and> vima_upsert_transactions sample_db_env store_after_first [vima_seen_again]
       = Inr store_after_second
   \<and> map source_update_cursor store_after_first = [JStr ''u1'']
   \<and> map source_update_cursor store_after_second = [JStr ''u2'']
   \<and> map amount_usd store_after_second = [None]"
proof -
  have a: "vima_upsert_transactions sample_db_env [] [vima_seen_first] = Inr store_after_first"
    by (simp add: store_after_first_def vima_upsert_transactions_def)
  have b: "map data_hash store_after_first = [data_hash vima_seen_again]" by code_simp
  have c: "vima_upsert_transactions sample_db_env store_after_first [vima_seen_again]
       = Inr store_after_second"
    by (simp add: store_after_second_def vima_upsert_transactions_def)
  have d: "map source_update_cursor store_after_first = [JStr ''u1'']" by code_simp
  have e: "map source_update_cursor store_after_second = [JStr ''u2'']" by code_simp
  have f: "map amount_usd store_after_second = [None]" by code_simp
  from seen_first seen_again a b c d e f show ?thesis by simp
qed

section \<open>Properties of the connectors\<close>

lemma get_operations_sent: "get_operations server cursor sent = (r, sent1) \<Longrightarrow> sent1 = Suc sent"
  by (auto simp: get_operations_def split: http_response.splits if_splits option.splits json.splits)

lemma get_all_operations_loop_bound:
  "get_all_operations_loop server max_batches cursor batch_count yielded sent = ((err, ys), sent')
     \<Longrightarrow> sent \<le> sent' \<and> sent' \<le> sent + nat (max_batches - batch_count)
         \<and> length ys \<le> length yielded + nat (max_batches - batch_count)"
proof (induction server max_batches cursor batch_count yielded sent
       arbitrary: err ys sent' rule: get_all_operations_loop.induct)
  case (1 server max_batches cursor batch_count yielded sent)
  show ?case
  proof (cases "batch_count < max_batches")
    case False
    with "1.prems" show ?thesis
      by (simp add: get_all_operations_loop.simps)
  next
    case True
    obtain r sent1 where g: "get_operations server cursor sent = (r, sent1)"
      by (cases "get_operations server cursor sent")
    then have s1: "sent1 = Suc sent" by (rule get_operations_sent)
    from True have room: "nat (max_batches - batch_count) = Suc (nat (max_batches - (batch_count + 1)))"
      by simp
    show ?thesis
    proof (cases "\<exists>operations last_op new_cursor. r = Inr operations \<and> py_truthy operations
        \<and> py_last operations = Some last_op
        \<and> dict_get last_op ''operation_create_id'' JNull = Some new_cursor
        \<and> \<not> (\<not> py_truthy new_cursor \<or> py_eq new_cursor cursor)")
      case True
      then obtain operations last_op new_cursor where
        c: "r = Inr operations" "py_truthy operations" "py_last operations = Some last_op"
          "dict_get last_op ''operation_create_id'' JNull = Some new_cursor"
          "\<not> (\<not> py_truthy new_cursor \<or> py_eq new_cursor cursor)"
        by blast
      from "1.prems" \<open>batch_count < max_batches\<close> g c
      have rec: "get_all_operations_loop server max_batches new_cursor (batch_count + 1)
                   (yielded @ [operations]) sent1 = ((err, ys), sent')"
        by (simp add: get_all_operations_loop.simps [of server max_batches cursor])
      from c(2) have nf: "\<not> \<not> py_truthy operations" by simp
      from "1.IH" [OF \<open>batch_count < max_batches\<close> g [symmetric] c(1) nf c(3) c(4) c(5) rec]
      show ?thesis using s1 room by simp
    next
      case False
      with "1.prems" \<open>batch_count < max_batches\<close> g
      have "sent' = sent1 \<and> length ys \<le> length yielded + 1"
        by (auto simp: get_all_operations_loop.simps [of server max_batches cursor]
            split: sum.splits if_splits option.splits)
      with s1 room show ?thesis by simp
    qed
  qed
qed

lemma login_requests: "login api c = (r, c') \<Longrightarrow> requests c' = requests c @ [Login]"
  by (auto simp: login_def Let_def
      split: http_response.splits if_splits option.splits prod.splits)

lemma ensure_auth_requests:
  "ensure_auth api c = (r, c') \<Longrightarrow> requests c' = requests c \<or> requests c' = requests c @ [Login]"
  by (auto simp: ensure_auth_def split: if_splits prod.splits sum.splits dest: login_requests)

lemma get_transactions_requests:
  "get_transactions depth ep api page c = (r, c')
     \<Longrightarrow> \<exists>new. requests c' = requests c @ new \<and> set new \<subseteq> {Login, Fetch ep page}
           \<and> length new \<le> 3 * depth"
proof (induction depth arbitrary: c r c')
  case 0
  then show ?case by simp
next
  case (Suc depth)
  obtain a c1 where e1: "ensure_auth api c = (a, c1)" by (cases "ensure_auth api c")
  from ensure_auth_requests [OF e1] obtain n1 where
    n1: "requests c1 = requests c @ n1" "set n1 \<subseteq> {Login}" "length n1 \<le> 1"
    by (cases "requests c1 = requests c") auto
  show ?case
  proof (cases a)
    case (Some e)
    with Suc.prems e1 have "c' = c1" by simp
    with n1 show ?thesis by auto
  next
    case None
    let ?c2 = "c1\<lparr>requests := requests c1 @ [Fetch ep page]\<rparr>"
    have c2: "requests ?c2 = requests c @ (n1 @ [Fetch ep page])" using n1 by simp
    show ?thesis
    proof (cases "\<exists>code body. respond api (length (requests c1)) (Fetch ep page) = HttpResponse code body
        \<and> \<not> is_success code \<and> (code = 401 \<or> code = 403)")
      case False
      with Suc.prems e1 None have "c' = ?c2"
        by (auto simp: Let_def split: http_response.splits if_splits)
      with c2 n1 show ?thesis by auto
    next
      case True
      then obtain code body where
        resp: "respond api (length (requests c1)) (Fetch ep page) = HttpResponse code body"
          "\<not> is_success code" "code = 401 \<or> code = 403"
        by blast
      obtain b c3 where e2: "ensure_auth api (?c2\<lparr>token := JNull\<rparr>) = (b, c3)"
        by (cases "ensure_auth api (?c2\<lparr>token := JNull\<rparr>)")
      from ensure_auth_requests [OF e2] obtain n2 where
        n2: "requests c3 = requests ?c2 @ n2" "set n2 \<subseteq> {Login}" "length n2 \<le> 1"
        by (cases "requests c3 = requests ?c2") auto
      show ?thesis
      proof (cases b)
        case (Some e)
        with Suc.prems e1 None resp e2 have "c' = c3"
          by (auto simp: Let_def)
        with n2 c2 n1 have "requests c' = requests c @ (n1 @ [Fetch ep page] @ n2)" by simp
        moreover have "set (n1 @ [Fetch ep page] @ n2) \<subseteq> {Login, Fetch ep page}"
          using n1 n2 by auto
        moreover have "length (n1 @ [Fetch ep page] @ n2) \<le> 3 * Suc depth"
          using n1 n2 by simp
        ultimately show ?thesis by blast
      next
        case None2: None
        with Suc.prems e1 None resp e2
        have "get_transactions depth ep api page c3 = (r, c')"
          by (auto simp: Let_def)
        from Suc.IH [OF this] obtain n3 where
          n3: "requests c' = requests c3 @ n3" "set n3 \<subseteq> {Login, Fetch ep page}"
            "length n3 \<le> 3 * depth"
          by blast
        from n3 n2 c2 n1
        have "requests c' = requests c @ (n1 @ [Fetch ep page] @ n2 @ n3)" by simp
        moreover have "set (n1 @ [Fetch ep page] @ n2 @ n3) \<subseteq> {Login, Fetch ep page}"
          using n1 n2 n3 by auto
        moreover have "length (n1 @ [Fetch ep page] @ n2 @ n3) \<le> 3 * Suc depth"
          using n1 n2 n3 by simp
        ultimately show ?thesis by blast
      qed
    qed
  qed
qed

lemma get_all_transactions_loop_bound:
  "get_all_transactions_loop depth ep api max_pages page yielded c = ((err, ys), c')
     \<Longrightarrow> \<exists>new. requests c' = requests c @ new
           \<and> (\<forall>q. q \<in> set new \<longrightarrow> q = Login \<or> (\<exists>p. q = Fetch ep p \<and> page \<le> p \<and> p \<le> max_pages))
           \<and> length new \<le> 3 * depth * nat (max_pages + 1 - page)
           \<and> length ys \<le> length yielded + nat (max_pages + 1 - page)"
proof (induction depth ep api max_pages page yielded c
       arbitrary: err ys c' rule: get_all_transactions_loop.induct)
  case (1 depth ep api max_pages page yielded c)
  show ?case
  proof (cases "page \<le> max_pages")
    case False
    with "1.prems" show ?thesis
      by (simp add: get_all_transactions_loop.simps)
  next
    case True
    obtain r c1 where g: "get_transactions depth ep api page c = (r, c1)"
      by (cases "get_transactions depth ep api page c")
    from get_transactions_requests [OF g] obtain n1 where
      n1: "requests c1 = requests c @ n1" "set n1 \<subseteq> {Login, Fetch ep page}"
        "length n1 \<le> 3 * depth"
      by blast
    from True have room: "nat (max_pages + 1 - page) = Suc (nat (max_pages + 1 - (page + 1)))"
      by simp
    have in1: "q = Login \<or> (\<exists>p. q = Fetch ep p \<and> page \<le> p \<and> p \<le> max_pages)"
      if "q \<in> set n1" for q
      using that n1(2) True by auto
    show ?thesis
    proof (cases "\<exists>result txns total_pages. r = Inr result
        \<and> dict_get result ''transactions'' (JArr []) = Some txns \<and> py_truthy txns
        \<and> dict_get result ''totalPages'' (JNum 1) = Some total_pages
        \<and> py_ge page total_pages = Some False")
      case False
      with "1.prems" True g
      have "c' = c1 \<and> length ys \<le> length yielded + 1"
        by (auto simp: get_all_transactions_loop.simps [of depth ep api max_pages page]
            split: sum.splits if_splits option.splits bool.splits)
      with n1 in1 room show ?thesis
        by (intro exI [of _ n1]) auto
    next
      case True2: True
      then obtain result txns total_pages where
        c: "r = Inr result" "dict_get result ''transactions'' (JArr []) = Some txns"
          "py_truthy txns" "dict_get result ''totalPages'' (JNum 1) = Some total_pages"
          "py_ge page total_pages = Some False"
        by blast
      from "1.prems" True g c
      have rec: "get_all_transactions_loop depth ep api max_pages (page + 1) (yielded @ [txns]) c1
                   = ((err, ys), c')"
        by (simp add: get_all_transactions_loop.simps [of depth ep api max_pages page])
      from c(3) have nf: "\<not> \<not> py_truthy txns" by simp
      from "1.IH" [OF True g [symmetric] c(1) c(2) nf c(4) c(5) _ rec]
      obtain n2 where
        n2: "requests c' = requests c1 @ n2"
          "\<forall>q. q \<in> set n2 \<longrightarrow> q = Login \<or> (\<exists>p. q = Fetch ep p \<and> page + 1 \<le> p \<and> p \<le> max_pages)"
          "length n2 \<le> 3 * depth * nat (max_pages + 1 - (page + 1))"
          "length ys \<le> length (yielded @ [txns]) + nat (max_pages + 1 - (page + 1))"
        by auto
      have "requests c' = requests c @ (n1 @ n2)" using n1 n2 by simp
      moreover have "\<forall>q. q \<in> set (n1 @ n2)
          \<longrightarrow> q = Login \<or> (\<exists>p. q = Fetch ep p \<and> page \<le> p \<and> p \<le> max_pages)"
        using in1 n2(2) by fastforce
      moreover have "length (n1 @ n2) \<le> 3 * depth * nat (max_pages + 1 - page)"
        using n1(3) n2(3) room by simp
      moreover have "length ys \<le> length yielded + nat (max_pages + 1 - page)"
        using n2(4) room by simp
      ultimately show ?thesis by blast
    qed
  qed
qed

lemma card_fetch_pages:
  assumes "\<forall>q. q \<in> set new \<longrightarrow> q = Login \<or> (\<exists>p. q = Fetch ep p \<and> lo \<le> p \<and> p \<le> hi)"
  shows "card {p. Fetch ep p \<in> set new} \<le> nat (hi + 1 - lo)"
proof -
  have "{p. Fetch ep p \<in> set new} \<subseteq> {lo..hi}" using assms by auto
  then have "card {p. Fetch ep p \<in> set new} \<le> card {lo..hi}"
    by (intro card_mono) auto
  then show ?thesis by simp
qed

text \<open>
  Claim C5. Both pagination loops are total functions, and a run of either sends a bounded
  number of requests. \<^verbatim>\<open>get_all_operations\<close> sends at most \<^verbatim>\<open>max_batches\<close> requests and
  yields at most as many batches; it stops, without a further request, at an empty page and
  at a page whose last \<^verbatim>\<open>operation_create_id\<close> is missing or equal to the cursor it was
  asked for. \<^verbatim>\<open>get_all_payin_transactions\<close> (and its pay-out twin) requests pages from
  \<^verbatim>\<open>start_page\<close> to \<^verbatim>\<open>max_pages\<close> only, hence at most \<^verbatim>\<open>max_pages\<close> of them for a page
  numbering that starts at 1 or later, and yields at most as many batches; it stops at an
  empty page and at a page whose number has reached the reported \<^verbatim>\<open>totalPages\<close>.
\<close>

theorem pagination_stops_within_ceiling:
  "(get_all_operations server from_cursor max_batches sent = ((err, ys), sent')
      \<longrightarrow> sent \<le> sent' \<and> sent' - sent \<le> nat max_batches \<and> length ys \<le> nat max_batches)
   \<and> (batch_count < max_batches \<and> get_operations server cursor sent = (Inr operations, sent1)
        \<and> \<not> py_truthy operations
      \<longrightarrow> get_all_operations_loop server max_batches cursor batch_count yielded sent
            = ((None, yielded), sent1))
   \<and> (batch_count < max_batches \<and> get_operations server cursor sent = (Inr operations, sent1)
        \<and> py_truthy operations \<and> py_last operations = Some last_op
        \<and> dict_get last_op ''operation_create_id'' JNull = Some new_cursor
        \<and> (\<not> py_truthy new_cursor \<or> py_eq new_cursor cursor)
      \<longrightarrow> get_all_operations_loop server max_batches cursor batch_count yielded sent
            = ((None, yielded @ [operations]), sent1))
   \<and> (get_all_transactions_loop depth ep api max_pages start_page [] c = ((perr, pys), c')
      \<longrightarrow> (\<exists>new. requests c' = requests c @ new
              \<and> card {p. Fetch ep p \<in> set new} \<le> nat (max_pages + 1 - start_page)
              \<and> (1 \<le> start_page \<longrightarrow> card {p. Fetch ep p \<in> set new} \<le> nat max_pages)
              \<and> length new \<le> 3 * depth * nat (max_pages + 1 - start_page))
          \<and> length pys \<le> nat (max_pages + 1 - start_page))
   \<and> (page \<le> max_pages \<and> get_transactions depth ep api page c = (Inr result, c1)
        \<and> dict_get result ''transactions'' (JArr []) = Some txns \<and> \<not> py_truthy txns
      \<longrightarrow> get_all_transactions_loop depth ep api max_pages page pyielded c
            = ((None, pyielded), c1))
   \<and> (page \<le> max_pages \<and> get_transactions depth ep api page c = (Inr result, c1)
        \<and> dict_get result ''transactions'' (JArr []) = Some txns \<and> py_truthy txns
        \<and> dict_get result ''totalPages'' (JNum 1) = Some total_pages
        \<and> py_ge page total_pages = Some True
      \<longrightarrow> get_all_transactions_loop depth ep api max_pages page pyielded c
            = ((None, pyielded @ [txns]), c1))"
proof (intro conjI impI)
  assume "get_all_operations server from_cursor max_batches sent = ((err, ys), sent')"
  then have "get_all_operations_loop server max_batches from_cursor 0 [] sent = ((err, ys), sent')"
    by (simp add: get_all_operations_def)
  from get_all_operations_loop_bound [OF this]
  show "sent \<le> sent'" "sent' - sent \<le> nat max_batches" "length ys \<le> nat max_batches"
    by auto
next
  assume "batch_count < max_batches \<and> get_operations server cursor sent = (Inr operations, sent1)
        \<and> \<not> py_truthy operations"
  then show "get_all_operations_loop server max_batches cursor batch_count yielded sent
            = ((None, yielded), sent1)"
    by (simp add: get_all_operations_loop.simps [of server max_batches cursor])
next
  assume "batch_count < max_batches \<and> get_operations server cursor sent = (Inr operations, sent1)
        \<and> py_truthy operations \<and> py_last operations = Some last_op
        \<and> dict_get last_op ''operation_create_id'' JNull = Some new_cursor
        \<and> (\<not> py_truthy new_cursor \<or> py_eq new_cursor cursor)"
  then show "get_all_operations_loop server max_batches cursor batch_count yielded sent
            = ((None, yielded @ [operations]), sent1)"
    by (auto simp: get_all_operations_loop.simps [of server max_batches cursor])
next
  assume a: "get_all_transactions_loop depth ep api max_pages start_page [] c = ((perr, pys), c')"
  from get_all_transactions_loop_bound [OF a] obtain new where
    n: "requests c' = requests c @ new"
      "\<forall>q. q \<in> set new \<longrightarrow> q = Login \<or> (\<exists>p. q = Fetch ep p \<and> start_page \<le> p \<and> p \<le> max_pages)"
      "length new \<le> 3 * depth * nat (max_pages + 1 - start_page)"
      "length pys \<le> length ([] :: json list) + nat (max_pages + 1 - start_page)"
    by blast
  have cd: "card {p. Fetch ep p \<in> set new} \<le> nat (max_pages + 1 - start_page)"
    by (rule card_fetch_pages [OF n(2)])
  moreover have "1 \<le> start_page \<longrightarrow> card {p. Fetch ep p \<in> set new} \<le> nat max_pages"
    using cd by auto
  ultimately show "\<exists>new. requests c' = requests c @ new
              \<and> card {p. Fetch ep p \<in> set new} \<le> nat (max_pages + 1 - start_page)
              \<and> (1 \<le> start_page \<longrightarrow> card {p. Fetch ep p \<in> set new} \<le> nat max_pages)
              \<and> length new \<le> 3 * depth * nat (max_pages + 1 - start_page)"
    using n(1,3) by blast
  from n(4) show "length pys \<le> nat (max_pages + 1 - start_page)" by simp
next
  assume "page \<le> max_pages \<and> get_transactions depth ep api page c = (Inr result, c1)
        \<and> dict_get result ''transactions'' (JArr []) = Some txns \<and> \<not> py_truthy txns"
  then show "get_all_transactions_loop depth ep api max_pages page pyielded c
            = ((None, pyielded), c1)"
    by (simp add: get_all_transactions_loop.simps [of depth ep api max_pages page])
next
  assume "page \<le> max_pages \<and> get_transactions depth ep api page c = (Inr result, c1)
        \<and> dict_get result ''transactions'' (JArr []) = Some txns \<and> py_truthy txns
        \<and> dict_get result ''totalPages'' (JNum 1) = Some total_pages
        \<and> py_ge page total_pages = Some True"
  then show "get_all_transactions_loop depth ep api max_pages page pyielded c
            = ((None, pyielded @ [txns]), c1)"
    by (simp add: get_all_transactions_loop.simps [of depth ep api max_pages page])
qed

theorem pagination_stops_within_ceiling_witness:
  "get_all_operations sample_vima_server JNull 5 0
     = ((None, [JArr [vima_op ''a'', vima_op ''b''], JArr [vima_op ''c''], JArr [vima_op ''c'']]), 3)
   \<and> (3 :: nat) - 0 \<le> nat 5
   \<and> get_operations sample_vima_server (JStr ''z'') 0 = (Inr (JArr []), 1)
   \<and> get_all_operations_loop sample_vima_server 5 (JStr ''z'') 0 [] 0 = ((None, []), 1)
   \<and> get_operations sample_vima_server (JStr ''c'') 0 = (Inr (JArr [vima_op ''c'']), 1)
   \<and> py_eq (JStr ''c'') (JStr ''c'')
   \<and> get_all_operations_loop sample_vima_server 5 (JStr ''c'') 0 [] 0
       = ((None, [] @ [JArr [vima_op ''c'']]), 1)
   \<and> requests (snd (get_all_transactions_loop 5 Payin (sample_api 1) 5 1 [] authenticated))
       = [Fetch Payin 1, Login, Fetch Payin 1, Fetch Payin 2]
   \<and> length (snd (fst (get_all_transactions_loop 5 Payin (sample_api 1) 5 1 [] authenticated)))
       \<le> nat (5 + 1 - 1)
   \<and> fst (get_transactions 5 Payin (sample_api 0) 3 authenticated)
       = Inr (JObj [(''transactions'', JArr []), (''totalPages'', JNum 2)])
   \<and> get_all_transactions_loop 5 Payin (sample_api 0) 5 3 [] authenticated
       = ((None, []), snd (get_transactions 5 Payin (sample_api 0) 3 authenticated))
   \<and> fst (get_transactions 5 Payin (sample_api 0) 2 authenticated)
       = Inr (JObj [(''transactions'', JArr [JObj [(''txnId'', JStr ''t-1'')]]), (''totalPages'', JNum 2)])
   \<and> py_ge 2 (JNum 2) = Some True
   \<and> get_all_transactions_loop 5 Payin (sample_api 0) 5 2 [] authenticated
       = ((None, [] @ [JArr [JObj [(''txnId'', JStr ''t-1'')]]]),
          snd (get_transactions 5 Payin (sample_api 0) 2 authenticated))"
proof -
  have v1: "get_all_operations sample_vima_server JNull 5 0
     = ((None, [JArr [vima_op ''a'', vima_op ''b''], JArr [vima_op ''c''], JArr [vima_op ''c'']]), 3)"
    by code_simp
  note t1 = pagination_stops_within_ceiling [THEN conjunct1, THEN mp, OF v1,
      THEN conjunct2, THEN conjunct1]
  have v2: "get_operations sample_vima_server (JStr ''z'') 0 = (Inr (JArr []), 1)"
    by code_simp
  have h2: "(0 :: int) < 5 \<and> get_operations sample_vima_server (JStr ''z'') 0 = (Inr (JArr []), 1)
      \<and> \<not> py_truthy (JArr [])"
    using v2 by simp
  note t2 = pagination_stops_within_ceiling [THEN conjunct2, THEN conjunct1, THEN mp, OF h2,
      of "[]"]
  have v3: "get_operations sample_vima_server (JStr ''c'') 0 = (Inr (JArr [vima_op ''c'']), 1)"
    by code_simp
  have e3: "py_eq (JStr ''c'') (JStr ''c'')" by (simp add: py_eq_def)
  have h3: "(0 :: int) < 5
      \<and> get_operations sample_vima_server (JStr ''c'') 0 = (Inr (JArr [vima_op ''c'']), 1)
      \<and> py_truthy (JArr [vima_op ''c'']) \<and> py_last (JArr [vima_op ''c'']) = Some (vima_op ''c'')
      \<and> dict_get (vima_op ''c'') ''operation_create_id'' JNull = Some (JStr ''c'')
      \<and> (\<not> py_truthy (JStr ''c'') \<or> py_eq (JStr ''c'') (JStr ''c''))"
    using v3 e3 by (simp add: py_last_def vima_op_def)
  note t3 = pagination_stops_within_ceiling [THEN conjunct2, THEN conjunct2, THEN conjunct1,
      THEN mp, OF h3, of "[]"]
  have v4: "requests (snd (get_all_transactions_loop 5 Payin (sample_api 1) 5 1 [] authenticated))
       = [Fetch Payin 1, Login, Fetch Payin 1, Fetch Payin 2]"
    by code_simp
  have h4: "get_all_transactions_loop 5 Payin (sample_api 1) 5 1 [] authenticated
      = ((fst (fst (get_all_transactions_loop 5 Payin (sample_api 1) 5 1 [] authenticated)),
          snd (fst (get_all_transactions_loop 5 Payin (sample_api 1) 5 1 [] authenticated))),
         snd (get_all_transactions_loop 5 Payin (sample_api 1) 5 1 [] authenticated))"
    by simp
  note t4 = pagination_stops_within_ceiling [THEN conjunct2, THEN conjunct2, THEN conjunct2,
      THEN conjunct1, THEN mp, OF h4, THEN conjunct2]
  have v5: "fst (get_transactions 5 Payin (sample_api 0) 3 authenticated)
       = Inr (JObj [(''transactions'', JArr []), (''totalPages'', JNum 2)])"
    by code_simp
  have h5: "(3 :: int) \<le> 5
      \<and> get_transactions 5 Payin (sample_api 0) 3 authenticated
          = (Inr (JObj [(''transactions'', JArr []), (''totalPages'', JNum 2)]),
             snd (get_transactions 5 Payin (sample_api 0) 3 authenticated))
      \<and> dict_get (JObj [(''transactions'', JArr []), (''totalPages'', JNum 2)])
            ''transactions'' (JArr []) = Some (JArr [])
      \<and> \<not> py_truthy (JArr [])"
    using v5 [symmetric] by simp
  note t5 = pagination_stops_within_ceiling [THEN conjunct2, THEN conjunct2, THEN conjunct2,
      THEN conjunct2, THEN conjunct1, THEN mp, OF h5, of "[]"]
  have v6: "fst (get_transactions 5 Payin (sample_api 0) 2 authenticated)
       = Inr (JObj [(''transactions'', JArr [JObj [(''txnId'', JStr ''t-1'')]]), (''totalPages'', JNum 2)])"
    by code_simp
  have g6: "py_ge 2 (JNum 2) = Some True" by (simp add: py_ge_def)
  have h6: "(2 :: int) \<le> 5
      \<and> get_transactions 5 Payin (sample_api 0) 2 authenticated
          = (Inr (JObj [(''transactions'', JArr [JObj [(''txnId'', JStr ''t-1'')]]),
                        (''totalPages'', JNum 2)]),
             snd (get_transactions 5 Payin (sample_api 0) 2 authenticated))
      \<and> dict_get (JObj [(''transactions'', JArr [JObj [(''txnId'', JStr ''t-1'')]]),
                         (''totalPages'', JNum 2)])
            ''transactions'' (JArr []) = Some (JArr [JObj [(''txnId'', JStr ''t-1'')]])
      \<and> py_truthy (JArr [JObj [(''txnId'', JStr ''t-1'')]])
      \<and> dict_get (JObj [(''transactions'', JArr [JObj [(''txnId'', JStr ''t-1'')]]),
                         (''totalPages'', JNum 2)])
            ''totalPages'' (JNum 1) = Some (JNum 2)
      \<and> py_ge 2 (JNum 2) = Some True"
    using v6 [symmetric] g6 by simp
  note t6 = pagination_stops_within_ceiling [THEN conjunct2, THEN conjunct2, THEN conjunct2,
      THEN conjunct2, THEN conjunct2, THEN mp, OF h6, of "[]"]
  show ?thesis
    by (intro conjI) (rule v1 t1 v2 t2 v3 e3 t3 v4 t4 v5 t5 v6 g6 t6)+
qed








end
